theory Spec2Isabelle
  imports Main
begin

section \<open>Kubernetes objects consumed by the operator\<close>

text \<open>
  The operator reads \<^verbatim>\<open>corev1.Service\<close> objects and keys everything by
  \<^verbatim>\<open>types.NamespacedName\<close>. A Go map that may be \<^verbatim>\<open>nil\<close> is an optional
  partial function: \<open>None\<close> is the nil map, \<open>Some Map.empty\<close> the allocated map
  without entries. Times are abstract clock readings.
\<close>

type_synonym time = nat

datatype NamespacedName = NamespacedName (nn_Namespace: string) (nn_Name: string)

type_synonym go_map = "(string \<rightharpoonup> string) option"

text \<open>Indexing a Go map, nil or not, gives the zero value for an absent key.\<close>

definition go_index :: "go_map \<Rightarrow> string \<Rightarrow> string" where
  "go_index m k = (case m of None \<Rightarrow> [] | Some f \<Rightarrow> (case f k of None \<Rightarrow> [] | Some v \<Rightarrow> v))"

text \<open>The two-valued form \<^verbatim>\<open>v, ok := m[k]\<close>.\<close>

definition go_lookup :: "go_map \<Rightarrow> string \<Rightarrow> string option" where
  "go_lookup m k = (case m of None \<Rightarrow> None | Some f \<Rightarrow> f k)"

record ServicePort =
  port_Name :: string
  port_Port :: int

record Service =
  svc_Name :: string
  svc_Namespace :: string
  svc_Labels :: go_map
  svc_Annotations :: go_map
  svc_Type :: string
  svc_Ports :: "ServicePort list"

definition corev1_ServiceTypeClusterIP :: string where
  "corev1_ServiceTypeClusterIP = ''ClusterIP''"

definition svc_key :: "Service \<Rightarrow> NamespacedName" where
  "svc_key svc = NamespacedName (svc_Namespace svc) (svc_Name svc)"

section \<open>The registry (pkg/mcp/registry.go)\<close>

type_synonym ServiceType = string
type_synonym ServiceStatus = string

definition ServiceTypeTool :: ServiceType where
  "ServiceTypeTool = ''tool''"

definition ServiceTypeAgent :: ServiceType where
  "ServiceTypeAgent = ''agent''"

definition ServiceStatusAvailable :: ServiceStatus where
  "ServiceStatusAvailable = ''Available''"

definition ServiceStatusPending :: ServiceStatus where
  "ServiceStatusPending = ''Pending''"

definition ServiceStatusUnavailable :: ServiceStatus where
  "ServiceStatusUnavailable = ''Unavailable''"

record MCPService =
  mcp_Name :: string
  mcp_Namespace :: string
  mcp_Type :: ServiceType
  mcp_Endpoint :: string
  mcp_Status :: ServiceStatus
  mcp_Service :: Service
  mcp_UpdatedAt :: time

text \<open>
  The registry is its \<^verbatim>\<open>services\<close> map. The mutex serialises the operations, so
  each is one atomic state transformer; the registry's informational log lines are not
  part of the state.
\<close>

record Registry =
  services :: "NamespacedName \<rightharpoonup> MCPService"

definition NewRegistry :: Registry where
  "NewRegistry = \<lparr> services = Map.empty \<rparr>"

text \<open>
  Errors are values. \<open>NotFoundError\<close> is the class that \<^verbatim>\<open>errors.IsNotFound\<close>
  recognises; every other error carries its message.
\<close>

datatype error = Error string | NotFoundError NamespacedName

definition IsNotFound :: "error \<Rightarrow> bool" where
  "IsNotFound err = (case err of NotFoundError _ \<Rightarrow> True | Error _ \<Rightarrow> False)"

definition default_endpoint :: "Service \<Rightarrow> string" where
  "default_endpoint svc = ''/mcp/'' @ svc_Namespace svc @ ''/'' @ svc_Name svc"

definition no_annotations_error :: "Service \<Rightarrow> error" where
  "no_annotations_error svc =
     Error (''service '' @ svc_Namespace svc @ ''/'' @ svc_Name svc @ '' has no annotations'')"

text \<open>
  \<^verbatim>\<open>RegisterService\<close>: the reading of \<^verbatim>\<open>time.Now()\<close> is the argument \<open>now\<close>.
  The result is the error or the stored record, with the registry after the call.
\<close>

definition RegisterService ::
  "time \<Rightarrow> Service \<Rightarrow> ServiceType \<Rightarrow> Registry \<Rightarrow> (error + MCPService) \<times> Registry" where
  "RegisterService now svc serviceType r =
     (let key = NamespacedName (svc_Namespace svc) (svc_Name svc) in
      if svc_Annotations svc = None then (Inl (no_annotations_error svc), r)
      else
        let endpoint = (case go_lookup (svc_Annotations svc) ''mcp.fetchfy.ai/endpoint'' of
                          Some e \<Rightarrow> e
                        | None \<Rightarrow> default_endpoint svc);
            status = (if svc_Type svc = corev1_ServiceTypeClusterIP \<and> length (svc_Ports svc) > 0
                      then ServiceStatusAvailable else ServiceStatusPending);
            mcpService = \<lparr> mcp_Name = svc_Name svc, mcp_Namespace = svc_Namespace svc,
                           mcp_Type = serviceType, mcp_Endpoint = endpoint,
                           mcp_Status = status, mcp_Service = svc, mcp_UpdatedAt = now \<rparr>
        in (Inr mcpService, r\<lparr> services := (services r)(key \<mapsto> mcpService) \<rparr>))"

definition DeregisterService :: "NamespacedName \<Rightarrow> Registry \<Rightarrow> bool \<times> Registry" where
  "DeregisterService name r =
     (if services r name \<noteq> None
      then (True, r\<lparr> services := (services r)(name := None) \<rparr>)
      else (False, r))"

definition GetService :: "Registry \<Rightarrow> NamespacedName \<Rightarrow> MCPService option" where
  "GetService r name = services r name"

text \<open>
  Go leaves the order in which \<^verbatim>\<open>range\<close> visits a map unspecified. The order is
  therefore an input of every function that ranges over a map: a list \<open>ks\<close> of keys,
  and \<open>range_order m ks\<close> says that it is a possible order, every key of the map once.
\<close>

definition range_order :: "('k \<rightharpoonup> 'v) \<Rightarrow> 'k list \<Rightarrow> bool" where
  "range_order m ks \<longleftrightarrow> distinct ks \<and> set ks = dom m"

definition range_values :: "('k \<rightharpoonup> 'v) \<Rightarrow> 'k list \<Rightarrow> 'v list" where
  "range_values m ks = List.map_filter m ks"


section \<open>The Gateway resource (api/v1alpha1/gateway_types.go)\<close>

record MCPServiceInfo =
  info_Name :: string
  info_Namespace :: string
  info_Type :: string
  info_Endpoint :: string
  info_Status :: string
  info_LastUpdated :: time

text \<open>\<^verbatim>\<open>metav1.Condition\<close>; the condition status is one of the strings True, False, Unknown.\<close>

record Condition =
  cond_Type :: string
  cond_Status :: string
  cond_LastTransitionTime :: time
  cond_Reason :: string
  cond_Message :: string
  cond_ObservedGeneration :: int

definition ConditionTrue :: string where
  "ConditionTrue = ''True''"

definition ConditionFalse :: string where
  "ConditionFalse = ''False''"

text \<open>
  \<^verbatim>\<open>metav1.LabelSelector\<close> as the API declares it, \<^verbatim>\<open>matchLabels\<close> as the list
  of its pairs. How a selector is compiled and evaluated is the Kubernetes library's
  business, not this repository's, and enters the model as a parameter (see
  \<open>env_selector\<close> below).
\<close>

record LabelSelectorRequirement =
  req_Key :: string
  req_Operator :: string
  req_Values :: "string list"

record LabelSelector =
  sel_MatchLabels :: "(string \<times> string) list"
  sel_MatchExpressions :: "LabelSelectorRequirement list"

record GatewaySpec =
  spec_MCPPort :: int
  spec_ServiceSelector :: LabelSelector
  spec_EnableTLS :: bool
  spec_TLSSecretRef :: string

record GatewayStatus =
  st_Conditions :: "Condition list"
  st_MCPServices :: "MCPServiceInfo list"
  st_Address :: string

record Gateway =
  gw_Name :: string
  gw_Namespace :: string
  gw_Generation :: int
  gw_DeletionTimestamp :: "time option"
  gw_Finalizers :: "string list"
  gw_Spec :: GatewaySpec
  gw_Status :: GatewayStatus

definition gw_key :: "Gateway \<Rightarrow> NamespacedName" where
  "gw_key gateway = NamespacedName (gw_Namespace gateway) (gw_Name gateway)"

subsection \<open>Projecting the registry onto a Gateway's status\<close>

definition service_info :: "MCPService \<Rightarrow> MCPServiceInfo" where
  "service_info svc =
     \<lparr> info_Name = mcp_Name svc, info_Namespace = mcp_Namespace svc,
       info_Type = mcp_Type svc, info_Endpoint = mcp_Endpoint svc,
       info_Status = mcp_Status svc, info_LastUpdated = mcp_UpdatedAt svc \<rparr>"

text \<open>
  \<^verbatim>\<open>UpdateRegistryStatus\<close> ranges over the whole \<^verbatim>\<open>services\<close> map, in the order
  \<open>ks\<close>, and replaces the status list of the Gateway it is given. It reads nothing
  of the Gateway.
\<close>

definition UpdateRegistryStatus :: "NamespacedName list \<Rightarrow> Registry \<Rightarrow> Gateway \<Rightarrow> Gateway" where
  "UpdateRegistryStatus ks r gateway =
     gateway\<lparr> gw_Status := (gw_Status gateway)
       \<lparr> st_MCPServices := map service_info (range_values (services r) ks) \<rparr> \<rparr>"

section \<open>The listener (pkg/mcp, type Server)\<close>

text \<open>
  The fields of \<^verbatim>\<open>Server\<close> that its lifecycle methods read or write. The HTTP server
  is represented by its address; the accept loop runs on its own goroutine and reports
  failures to the log only, so it is outside the state. Each method holds the mutex
  for its whole body and is one atomic step.
\<close>

record Server =
  srv_httpServer :: "string option"
  srv_port :: int
  srv_gatewayRef :: NamespacedName
  srv_enableTLS :: bool
  srv_tlsSecretName :: string
  srv_started :: bool

text \<open>\<^verbatim>\<open>%d\<close> of \<^verbatim>\<open>fmt.Sprintf\<close>: the decimal numeral of an integer.\<close>

fun nat_dec :: "nat \<Rightarrow> string" where
  "nat_dec n = (if n < 10 then [''0123456789'' ! n]
                else nat_dec (n div 10) @ [''0123456789'' ! (n mod 10)])"

declare nat_dec.simps [simp del]

definition fmt_d :: "int \<Rightarrow> string" where
  "fmt_d i = (if i < 0 then ''-'' @ nat_dec (nat (- i)) else nat_dec (nat i))"

definition NewServer :: Server where
  "NewServer = \<lparr> srv_httpServer = None, srv_port = 0,
                 srv_gatewayRef = NamespacedName [] [], srv_enableTLS = False,
                 srv_tlsSecretName = [], srv_started = False \<rparr>"

definition Configure :: "Gateway \<Rightarrow> Server \<Rightarrow> Server" where
  "Configure gateway s =
     s\<lparr> srv_port := spec_MCPPort (gw_Spec gateway),
        srv_enableTLS := spec_EnableTLS (gw_Spec gateway),
        srv_tlsSecretName := spec_TLSSecretRef (gw_Spec gateway),
        srv_gatewayRef := NamespacedName (gw_Namespace gateway) (gw_Name gateway) \<rparr>"

definition already_started :: error where
  "already_started = Error ''server already started''"

definition Start :: "Server \<Rightarrow> error option \<times> Server" where
  "Start s =
     (if srv_started s then (Some already_started, s)
      else (None, s\<lparr> srv_httpServer := Some ('':'' @ fmt_d (srv_port s)),
                      srv_started := True \<rparr>))"

text \<open>\<open>shutdown\<close> is what \<^verbatim>\<open>http.Server.Shutdown\<close> returns, when it is called.\<close>

definition Stop :: "error option \<Rightarrow> Server \<Rightarrow> error option \<times> Server" where
  "Stop shutdown s =
     (if \<not> srv_started s \<or> srv_httpServer s = None then (None, s)
      else (shutdown, s\<lparr> srv_started := False \<rparr>))"

definition IsRunning :: "Server \<Rightarrow> bool" where
  "IsRunning s = srv_started s"

section \<open>Status conditions (internal/controller/gateway_controller.go)\<close>

definition gatewayFinalizer :: string where
  "gatewayFinalizer = ''fetchfy.ai/finalizer''"

definition conditionTypeReady :: string where
  "conditionTypeReady = ''Ready''"

definition conditionTypeAvailable :: string where
  "conditionTypeAvailable = ''Available''"

definition reasonReady :: string where
  "reasonReady = ''GatewayReady''"

definition reasonConfigured :: string where
  "reasonConfigured = ''GatewayConfigured''"

definition reasonServerError :: string where
  "reasonServerError = ''ServerError''"

definition reasonConfigError :: string where
  "reasonConfigError = ''ConfigurationError''"

text \<open>
  The loop of \<^verbatim>\<open>updateGatewayCondition\<close> over the existing conditions: at the first
  entry of the wanted type it either returns (nothing changed) or overwrites that entry
  and returns; falling off the end, it appends.
\<close>

fun update_conditions :: "Condition \<Rightarrow> Condition list \<Rightarrow> Condition list" where
  "update_conditions new [] = [new]"
| "update_conditions new (condition # rest) =
     (if cond_Type condition = cond_Type new then
        (if cond_Status condition = cond_Status new \<and> cond_Reason condition = cond_Reason new
            \<and> cond_Message condition = cond_Message new
         then condition # rest
         else new # rest)
      else condition # update_conditions new rest)"

text \<open>The condition literal that \<^verbatim>\<open>updateGatewayCondition\<close> writes.\<close>

definition new_condition ::
  "time \<Rightarrow> Gateway \<Rightarrow> string \<Rightarrow> string \<Rightarrow> string \<Rightarrow> string \<Rightarrow> Condition" where
  "new_condition now gateway conditionType status reason message =
     \<lparr> cond_Type = conditionType, cond_Status = status,
       cond_LastTransitionTime = now, cond_Reason = reason,
       cond_Message = message, cond_ObservedGeneration = gw_Generation gateway \<rparr>"

definition updateGatewayCondition ::
  "time \<Rightarrow> Gateway \<Rightarrow> string \<Rightarrow> string \<Rightarrow> string \<Rightarrow> string \<Rightarrow> Gateway" where
  "updateGatewayCondition now gateway conditionType status reason message =
     gateway\<lparr> gw_Status := (gw_Status gateway)
       \<lparr> st_Conditions :=
           update_conditions (new_condition now gateway conditionType status reason message)
             (st_Conditions (gw_Status gateway)) \<rparr> \<rparr>"

section \<open>The world a reconciliation runs in\<close>

text \<open>
  Everything a reconciliation does not decide itself is an input, collected in \<open>Env\<close>
  and fixed for one invocation:
  \<^item> \<open>env_fault\<close>: the error, if any, with which the API server answers a call;
  \<^item> \<open>env_now\<close>: the reading of \<^verbatim>\<open>time.Now()\<close> taken when the named service is
    registered or the named condition is written;
  \<^item> \<open>env_selector\<close>: \<^verbatim>\<open>metav1.LabelSelectorAsSelector\<close>, yielding an error or the
    predicate on label maps that the API server applies when listing;
  \<^item> \<open>env_shutdown\<close>: the result of \<^verbatim>\<open>http.Server.Shutdown\<close>;
  \<^item> \<open>env_range_services\<close>, \<open>env_range_gateways\<close>: the orders in which
    \<^verbatim>\<open>range\<close> visits the registry (when projecting onto the named Gateway) and the
    watcher's Gateways.
\<close>

datatype api_call =
    GetGateway NamespacedName
  | UpdateGateway NamespacedName
  | UpdateGatewayStatus NamespacedName
  | GetServiceObject NamespacedName
  | ListServiceObjects

datatype stamp = StampService NamespacedName | StampCondition string

record Env =
  env_fault :: "api_call \<Rightarrow> error option"
  env_now :: "stamp \<Rightarrow> time"
  env_selector :: "LabelSelector \<Rightarrow> error + (go_map \<Rightarrow> bool)"
  env_shutdown :: "error option"
  env_range_services :: "NamespacedName \<Rightarrow> NamespacedName list"
  env_range_gateways :: "NamespacedName list"

text \<open>
  What an invocation does to the outside, and to the shared maps, is recorded in order
  of execution: log lines, listener starts and stops, entries leaving the
  \<^verbatim>\<open>MCPServers\<close> map, Gateways entering and leaving the watcher, and the write
  requests sent to the API server (with the object sent). The lines that the registry
  and the listener write to their own loggers are not recorded.
\<close>

datatype event =
    LogInfo string
  | LogError error string
  | ServerStarted NamespacedName
  | ServerStopped NamespacedName
  | ServerDiscarded NamespacedName
  | GatewayTracked NamespacedName
  | GatewayUntracked NamespacedName
  | ApiUpdate Gateway
  | ApiStatusUpdate Gateway

text \<open>
  The state shared by the reconciler and the watcher: the API server's Gateways and
  Services, the one registry both point to, the watcher's \<^verbatim>\<open>gateways\<close> map, the
  reconciler's \<^verbatim>\<open>MCPServers\<close> map. The watcher never dereferences the pointers it
  stores (it ranges over the keys and fetches each Gateway afresh), so its map is
  represented by its key set.
\<close>

record World =
  api_gateways :: "NamespacedName \<rightharpoonup> Gateway"
  api_services :: "Service list"
  MCPRegistry :: Registry
  sw_gateways :: "NamespacedName set"
  MCPServers :: "NamespacedName \<rightharpoonup> Server"
  trace :: "event list"

definition emit :: "event \<Rightarrow> World \<Rightarrow> World" where
  "emit e w = w\<lparr> trace := trace w @ [e] \<rparr>"

subsection \<open>The API client\<close>

text \<open>
  The client is an external collaborator, modelled at its interface. A call either
  fails with the injected fault or acts on the stored objects. Status is a subresource
  of Gateway (the kubebuilder marker in gateway_types.go): \<^verbatim>\<open>Update\<close> stores
  metadata and spec and keeps the stored status, \<^verbatim>\<open>Status().Update\<close> stores the
  status only. An object marked for deletion leaves the store when an update removes
  its last finalizer.
\<close>

definition client_Get_Gateway :: "Env \<Rightarrow> NamespacedName \<Rightarrow> World \<Rightarrow> error + Gateway" where
  "client_Get_Gateway env key w =
     (case env_fault env (GetGateway key) of
        Some err \<Rightarrow> Inl err
      | None \<Rightarrow> (case api_gateways w key of
                   None \<Rightarrow> Inl (NotFoundError key)
                 | Some gateway \<Rightarrow> Inr gateway))"

definition client_Get_Service :: "Env \<Rightarrow> NamespacedName \<Rightarrow> World \<Rightarrow> error + Service" where
  "client_Get_Service env key w =
     (case env_fault env (GetServiceObject key) of
        Some err \<Rightarrow> Inl err
      | None \<Rightarrow> (case find (\<lambda>svc. svc_key svc = key) (api_services w) of
                   None \<Rightarrow> Inl (NotFoundError key)
                 | Some svc \<Rightarrow> Inr svc))"

definition client_Update :: "Env \<Rightarrow> Gateway \<Rightarrow> World \<Rightarrow> error option \<times> World" where
  "client_Update env gateway w =
     (let key = gw_key gateway; w1 = emit (ApiUpdate gateway) w in
      case env_fault env (UpdateGateway key) of
        Some err \<Rightarrow> (Some err, w1)
      | None \<Rightarrow> (case api_gateways w key of
                   None \<Rightarrow> (Some (NotFoundError key), w1)
                 | Some stored \<Rightarrow>
                     (None, w1\<lparr> api_gateways :=
                        (if gw_DeletionTimestamp gateway \<noteq> None \<and> gw_Finalizers gateway = []
                         then (api_gateways w)(key := None)
                         else (api_gateways w)(key \<mapsto> gateway\<lparr> gw_Status := gw_Status stored \<rparr>)) \<rparr>)))"

definition client_Status_Update :: "Env \<Rightarrow> Gateway \<Rightarrow> World \<Rightarrow> error option \<times> World" where
  "client_Status_Update env gateway w =
     (let key = gw_key gateway; w1 = emit (ApiStatusUpdate gateway) w in
      case env_fault env (UpdateGatewayStatus key) of
        Some err \<Rightarrow> (Some err, w1)
      | None \<Rightarrow> (case api_gateways w key of
                   None \<Rightarrow> (Some (NotFoundError key), w1)
                 | Some stored \<Rightarrow>
                     (None, w1\<lparr> api_gateways :=
                        (api_gateways w)(key \<mapsto> stored\<lparr> gw_Status := gw_Status gateway \<rparr>) \<rparr>)))"

text \<open>\<^verbatim>\<open>controllerutil\<close>'s finalizer helpers, on the finalizer list of the object.\<close>

definition ContainsFinalizer :: "Gateway \<Rightarrow> string \<Rightarrow> bool" where
  "ContainsFinalizer gateway f \<longleftrightarrow> f \<in> set (gw_Finalizers gateway)"

definition AddFinalizer :: "Gateway \<Rightarrow> string \<Rightarrow> Gateway" where
  "AddFinalizer gateway f =
     (if f \<in> set (gw_Finalizers gateway) then gateway
      else gateway\<lparr> gw_Finalizers := gw_Finalizers gateway @ [f] \<rparr>)"

definition RemoveFinalizer :: "Gateway \<Rightarrow> string \<Rightarrow> Gateway" where
  "RemoveFinalizer gateway f =
     gateway\<lparr> gw_Finalizers := filter (\<lambda>x. x \<noteq> f) (gw_Finalizers gateway) \<rparr>"

section \<open>The service watcher (pkg/services/watcher.go)\<close>

definition MCPEnabledLabel :: string where
  "MCPEnabledLabel = ''mcp-enabled''"

definition MCPTypeAnnotation :: string where
  "MCPTypeAnnotation = ''mcp.fetchfy.ai/type''"

definition IsMCPEnabledService :: "Service \<Rightarrow> bool" where
  "IsMCPEnabledService svc =
     (if svc_Labels svc = None then False
      else (case go_lookup (svc_Labels svc) MCPEnabledLabel of
              Some val \<Rightarrow> val = ''true''
            | None \<Rightarrow> False))"

definition AddGateway :: "Gateway \<Rightarrow> World \<Rightarrow> World" where
  "AddGateway gateway w =
     emit (LogInfo ''Added gateway to service watcher'')
       (emit (GatewayTracked (gw_key gateway))
          (w\<lparr> sw_gateways := insert (gw_key gateway) (sw_gateways w) \<rparr>))"

definition RemoveGateway :: "NamespacedName \<Rightarrow> World \<Rightarrow> World" where
  "RemoveGateway name w =
     emit (LogInfo ''Removed gateway from service watcher'')
       (emit (GatewayUntracked name)
          (w\<lparr> sw_gateways := sw_gateways w - {name} \<rparr>))"

definition GetMatchingServices :: "Env \<Rightarrow> Gateway \<Rightarrow> World \<Rightarrow> error + Service list" where
  "GetMatchingServices env gateway w =
     (case env_selector env (spec_ServiceSelector (gw_Spec gateway)) of
        Inl err \<Rightarrow> Inl err
      | Inr selector \<Rightarrow>
          (case env_fault env ListServiceObjects of
             Some err \<Rightarrow> Inl err
           | None \<Rightarrow> Inr (filter (\<lambda>svc. selector (svc_Labels svc)) (api_services w))))"

text \<open>The body of the loop of \<^verbatim>\<open>updateAllGatewayStatuses\<close>, for one tracked key.\<close>

definition updateGatewayStatus :: "Env \<Rightarrow> NamespacedName \<Rightarrow> World \<Rightarrow> World" where
  "updateGatewayStatus env key w =
     (case client_Get_Gateway env key w of
        Inl err \<Rightarrow> emit (LogError err ''Failed to fetch gateway for status update'') w
      | Inr currentGateway \<Rightarrow>
          (case client_Status_Update env
                  (UpdateRegistryStatus (env_range_services env key) (MCPRegistry w) currentGateway) w of
             (Some err, w1) \<Rightarrow> emit (LogError err ''Failed to update gateway status'') w1
           | (None, w1) \<Rightarrow> w1))"

text \<open>The loop itself; a key of the given order that is not tracked is not visited.\<close>

definition updateAllGatewayStatuses :: "Env \<Rightarrow> World \<Rightarrow> World" where
  "updateAllGatewayStatuses env w =
     fold (updateGatewayStatus env)
       (filter (\<lambda>key. key \<in> sw_gateways w) (env_range_gateways env)) w"

text \<open>\<^verbatim>\<open>ctrl.Result\<close>; \<open>RequeueAfter\<close> in seconds, 0 for none.\<close>

record Result =
  Requeue :: bool
  RequeueAfter :: nat

definition no_requeue :: Result where
  "no_requeue = \<lparr> Requeue = False, RequeueAfter = 0 \<rparr>"

text \<open>The two early exits of the watcher that deregister the service and succeed.\<close>

definition deregister_and_return :: "string \<Rightarrow> NamespacedName \<Rightarrow> World \<Rightarrow> (Result \<times> error option) \<times> World" where
  "deregister_and_return msg name w =
     (case DeregisterService name (MCPRegistry w) of
        (True, r') \<Rightarrow> ((no_requeue, None), emit (LogInfo msg) (w\<lparr> MCPRegistry := r' \<rparr>))
      | (False, r') \<Rightarrow> ((no_requeue, None), w\<lparr> MCPRegistry := r' \<rparr>))"

definition ServiceWatcher_Reconcile ::
  "Env \<Rightarrow> NamespacedName \<Rightarrow> World \<Rightarrow> (Result \<times> error option) \<times> World" where
  "ServiceWatcher_Reconcile env req w =
     (case client_Get_Service env req w of
        Inl err \<Rightarrow>
          (if IsNotFound err
           then deregister_and_return ''Deregistered service from MCP registry'' req w
           else ((no_requeue, Some err), emit (LogError err ''Failed to fetch service'') w))
      | Inr service \<Rightarrow>
          (if \<not> IsMCPEnabledService service
           then deregister_and_return ''Deregistered non-MCP service from registry'' req w
           else
             let serviceType =
                   (if svc_Annotations service \<noteq> None then
                      (case go_lookup (svc_Annotations service) MCPTypeAnnotation of
                         Some typeStr \<Rightarrow>
                           (if typeStr = ServiceTypeAgent then ServiceTypeAgent else ServiceTypeTool)
                       | None \<Rightarrow> ServiceTypeTool)
                    else ServiceTypeTool)
             in (case RegisterService (env_now env (StampService (svc_key service)))
                        service serviceType (MCPRegistry w) of
                   (Inl err, r') \<Rightarrow>
                     ((no_requeue, Some err), emit (LogError err ''Failed to register MCP service'') w)
                 | (Inr registered, r') \<Rightarrow>
                     ((no_requeue, None),
                      updateAllGatewayStatuses env
                        (emit (LogInfo ''Registered MCP service'') (w\<lparr> MCPRegistry := r' \<rparr>))))))"

section \<open>The Gateway reconciler (internal/controller/gateway_controller.go)\<close>

definition cleanupGateway :: "Env \<Rightarrow> NamespacedName \<Rightarrow> World \<Rightarrow> World" where
  "cleanupGateway env gatewayName w =
     (let w1 = emit (LogInfo ''Cleaning up resources for gateway'') w;
          w2 = (case MCPServers w1 gatewayName of
                  Some server \<Rightarrow>
                    (case Stop (env_shutdown env) server of
                       (stopErr, server') \<Rightarrow>
                         let w3 = emit (ServerStopped gatewayName) w1;
                             w4 = (case stopErr of
                                     Some err \<Rightarrow> emit (LogError err ''Failed to stop MCP server'') w3
                                   | None \<Rightarrow> w3)
                         in emit (ServerDiscarded gatewayName)
                              (w4\<lparr> MCPServers := (MCPServers w4)(gatewayName := None) \<rparr>))
                | None \<Rightarrow> w1)
      in RemoveGateway gatewayName w2)"

definition handleDeletion :: "Env \<Rightarrow> Gateway \<Rightarrow> World \<Rightarrow> (Result \<times> error option) \<times> World" where
  "handleDeletion env gateway w =
     (let w1 = emit (LogInfo ''Handling deletion of Gateway'') w;
          w2 = cleanupGateway env (NamespacedName (gw_Namespace gateway) (gw_Name gateway)) w1
      in if ContainsFinalizer gateway gatewayFinalizer then
           (case client_Update env (RemoveFinalizer gateway gatewayFinalizer) w2 of
              (Some err, w3) \<Rightarrow>
                ((no_requeue, Some err), emit (LogError err ''Failed to remove finalizer'') w3)
            | (None, w3) \<Rightarrow> ((no_requeue, None), w3))
         else ((no_requeue, None), w2))"

definition ensureMCPServer :: "Gateway \<Rightarrow> World \<Rightarrow> error option \<times> World" where
  "ensureMCPServer gateway w =
     (let gatewayName = NamespacedName (gw_Namespace gateway) (gw_Name gateway);
          server = (case MCPServers w gatewayName of Some s \<Rightarrow> s | None \<Rightarrow> NewServer);
          configured = Configure gateway server
      in if \<not> IsRunning configured then
           (case Start configured of
              (Some err, server') \<Rightarrow>
                (Some err, w\<lparr> MCPServers := (MCPServers w)(gatewayName \<mapsto> server') \<rparr>)
            | (None, server') \<Rightarrow>
                (None, emit (ServerStarted gatewayName)
                         (w\<lparr> MCPServers := (MCPServers w)(gatewayName \<mapsto> server') \<rparr>)))
         else (None, w\<lparr> MCPServers := (MCPServers w)(gatewayName \<mapsto> configured) \<rparr>))"

text \<open>The body of the loop ``register all matching services'', for one listed service.\<close>

definition registerMatching :: "Env \<Rightarrow> Service \<Rightarrow> World \<Rightarrow> World" where
  "registerMatching env svc w =
     (if svc_Labels svc \<noteq> None \<and> go_index (svc_Labels svc) MCPEnabledLabel = ''true'' then
        let serviceType =
              (if svc_Annotations svc \<noteq> None
                  \<and> go_index (svc_Annotations svc) MCPTypeAnnotation = ServiceTypeAgent
               then ServiceTypeAgent else ServiceTypeTool)
        in (case RegisterService (env_now env (StampService (svc_key svc))) svc serviceType
                   (MCPRegistry w) of
              (Inl err, r') \<Rightarrow> emit (LogError err ''Failed to register service'') w
            | (Inr registered, r') \<Rightarrow> w\<lparr> MCPRegistry := r' \<rparr>)
      else w)"

definition ready_message :: "nat \<Rightarrow> string" where
  "ready_message n = ''Gateway is ready with '' @ fmt_d (int n) @ '' services''"

text \<open>
  The tail of \<^verbatim>\<open>Reconcile\<close>, from ``update gateway status'' on: project the registry,
  set the address, set the two conditions, persist the status.
\<close>

definition publishStatus :: "Env \<Rightarrow> Gateway \<Rightarrow> World \<Rightarrow> (Result \<times> error option) \<times> World" where
  "publishStatus env gateway w =
     (let g1 = UpdateRegistryStatus (env_range_services env (gw_key gateway)) (MCPRegistry w) gateway;
          g2 = g1\<lparr> gw_Status := (gw_Status g1)
                 \<lparr> st_Address := '':'' @ fmt_d (spec_MCPPort (gw_Spec g1)) \<rparr> \<rparr>;
          g3 = updateGatewayCondition (env_now env (StampCondition conditionTypeReady)) g2
                 conditionTypeReady ConditionTrue reasonReady
                 (ready_message (length (st_MCPServices (gw_Status g2))));
          g4 = updateGatewayCondition (env_now env (StampCondition conditionTypeAvailable)) g3
                 conditionTypeAvailable ConditionTrue reasonConfigured ''Gateway is available''
      in case client_Status_Update env g4 w of
           (Some err, w1) \<Rightarrow>
             ((\<lparr> Requeue = False, RequeueAfter = 60 \<rparr>, Some err),
              emit (LogError err ''Failed to update Gateway status'') w1)
         | (None, w1) \<Rightarrow> ((\<lparr> Requeue = False, RequeueAfter = 300 \<rparr>, None), w1))"

text \<open>
  \<^verbatim>\<open>Reconcile\<close>. Two steps of the source leave no mark on the world and do not
  appear: the initialisation of a nil condition list (nil and empty are the same list
  here), and the calls of \<^verbatim>\<open>updateGatewayCondition\<close> on the two error exits, which
  change the in-memory copy of the Gateway and return without persisting it.
\<close>

definition GatewayReconciler_Reconcile ::
  "Env \<Rightarrow> NamespacedName \<Rightarrow> World \<Rightarrow> (Result \<times> error option) \<times> World" where
  "GatewayReconciler_Reconcile env req w =
     (case client_Get_Gateway env req w of
        Inl err \<Rightarrow>
          (if IsNotFound err then ((no_requeue, None), cleanupGateway env req w)
           else ((no_requeue, Some err), emit (LogError err ''Unable to fetch Gateway'') w))
      | Inr gateway \<Rightarrow>
          if gw_DeletionTimestamp gateway \<noteq> None then handleDeletion env gateway w
          else if \<not> ContainsFinalizer gateway gatewayFinalizer then
            (case client_Update env (AddFinalizer gateway gatewayFinalizer) w of
               (Some err, w1) \<Rightarrow>
                 ((no_requeue, Some err), emit (LogError err ''Failed to add finalizer'') w1)
             | (None, w1) \<Rightarrow> ((\<lparr> Requeue = True, RequeueAfter = 0 \<rparr>, None), w1))
          else
            (case ensureMCPServer gateway w of
               (Some err, w1) \<Rightarrow>
                 ((\<lparr> Requeue = False, RequeueAfter = 30 \<rparr>, Some err),
                  emit (LogError err ''Failed to ensure MCP server'') w1)
             | (None, w1) \<Rightarrow>
                 let w2 = AddGateway gateway w1 in
                 (case GetMatchingServices env gateway w2 of
                    Inl err \<Rightarrow>
                      ((\<lparr> Requeue = False, RequeueAfter = 30 \<rparr>, Some err),
                       emit (LogError err ''Failed to list matching services'') w2)
                  | Inr matchingServices \<Rightarrow>
                      publishStatus env gateway (fold (registerMatching env) matchingServices w2))))"

section \<open>Sequences of registry operations\<close>

text \<open>
  The two mutating operations as data, so that properties of every reachable registry
  can be stated: a registry is reachable when it is the result of a list of operations
  applied to \<open>NewRegistry\<close>.
\<close>

datatype registry_op =
    OpRegister time Service ServiceType
  | OpDeregister NamespacedName

fun apply_registry_op :: "registry_op \<Rightarrow> Registry \<Rightarrow> Registry" where
  "apply_registry_op (OpRegister now svc serviceType) r = snd (RegisterService now svc serviceType r)"
| "apply_registry_op (OpDeregister name) r = snd (DeregisterService name r)"


text \<open>The record that \<^verbatim>\<open>RegisterService\<close> stores when it accepts the call.\<close>

definition registered :: "time \<times> Service \<times> ServiceType \<Rightarrow> MCPService" where
  "registered c = (case c of (now, svc, serviceType) \<Rightarrow>
     \<lparr> mcp_Name = svc_Name svc, mcp_Namespace = svc_Namespace svc, mcp_Type = serviceType,
       mcp_Endpoint = (case go_lookup (svc_Annotations svc) ''mcp.fetchfy.ai/endpoint'' of
                         Some e \<Rightarrow> e | None \<Rightarrow> default_endpoint svc),
       mcp_Status = (if svc_Type svc = corev1_ServiceTypeClusterIP \<and> length (svc_Ports svc) > 0
                     then ServiceStatusAvailable else ServiceStatusPending),
       mcp_Service = svc, mcp_UpdatedAt = now \<rparr>)"


text \<open>Every stored record carries one of the two statuses that registration assigns.\<close>

definition status_ok :: "Registry \<Rightarrow> bool" where
  "status_ok r \<longleftrightarrow> (\<forall>k m. services r k = Some m \<longrightarrow>
      mcp_Status m = ServiceStatusAvailable \<or> mcp_Status m = ServiceStatusPending)"

section \<open>Reading the trace\<close>

text \<open>
  An event releases the Gateway when it is an \<^verbatim>\<open>Update\<close> request whose object no
  longer carries the operator's finalizer. \<open>cleanup_events\<close> is the sequence of
  events that \<^verbatim>\<open>cleanupGateway\<close> appends to the trace.
\<close>

definition releases :: "event \<Rightarrow> bool" where
  "releases e = (case e of ApiUpdate g \<Rightarrow> \<not> ContainsFinalizer g gatewayFinalizer | _ \<Rightarrow> False)"

definition no_release_since :: "World \<Rightarrow> World \<Rightarrow> bool" where
  "no_release_since w w' \<longleftrightarrow> (\<exists>es. trace w' = trace w @ es \<and> list_all (\<lambda>e. \<not> releases e) es)"

definition cleanup_events :: "Env \<Rightarrow> NamespacedName \<Rightarrow> World \<Rightarrow> event list" where
  "cleanup_events env gatewayName w =
     LogInfo ''Cleaning up resources for gateway'' #
     (case MCPServers w gatewayName of
        Some server \<Rightarrow>
          ServerStopped gatewayName #
          (case fst (Stop (env_shutdown env) server) of
             Some err \<Rightarrow> [LogError err ''Failed to stop MCP server'']
           | None \<Rightarrow> []) @
          [ServerDiscarded gatewayName]
      | None \<Rightarrow> []) @
     [GatewayUntracked gatewayName, LogInfo ''Removed gateway from service watcher'']"

text \<open>The object whose status \<^verbatim>\<open>Reconcile\<close> persists at its end.\<close>

definition final_gateway :: "Env \<Rightarrow> Gateway \<Rightarrow> Registry \<Rightarrow> Gateway" where
  "final_gateway env gateway r =
     (let g1 = UpdateRegistryStatus (env_range_services env (gw_key gateway)) r gateway;
          g2 = g1\<lparr> gw_Status := (gw_Status g1)
                 \<lparr> st_Address := '':'' @ fmt_d (spec_MCPPort (gw_Spec g1)) \<rparr> \<rparr>;
          g3 = updateGatewayCondition (env_now env (StampCondition conditionTypeReady)) g2
                 conditionTypeReady ConditionTrue reasonReady
                 (ready_message (length (st_MCPServices (gw_Status g2))))
      in updateGatewayCondition (env_now env (StampCondition conditionTypeAvailable)) g3
                 conditionTypeAvailable ConditionTrue reasonConfigured ''Gateway is available'')"

section \<open>Vocabulary for the reconciler's success path\<close>

text \<open>
  What the reconciler's loop does with one listed service, read off
  \<open>registerMatching\<close>: the service is registered when it carries the enablement
  label and \<^verbatim>\<open>RegisterService\<close> accepts it; \<open>role_of\<close> is the role it is given and
  \<open>entry_for\<close> the record stored.
\<close>

definition accepted :: "Service \<Rightarrow> bool" where
  "accepted svc \<longleftrightarrow> svc_Labels svc \<noteq> None
     \<and> go_index (svc_Labels svc) MCPEnabledLabel = ''true'' \<and> svc_Annotations svc \<noteq> None"

definition role_of :: "Service \<Rightarrow> ServiceType" where
  "role_of svc =
     (if svc_Annotations svc \<noteq> None
         \<and> go_index (svc_Annotations svc) MCPTypeAnnotation = ServiceTypeAgent
      then ServiceTypeAgent else ServiceTypeTool)"

definition entry_for :: "Env \<Rightarrow> Service \<Rightarrow> MCPService" where
  "entry_for env svc = registered (env_now env (StampService (svc_key svc)), svc, role_of svc)"

text \<open>Whether the Gateway's selector, as the environment compiles it, selects a service.\<close>

definition selects :: "Env \<Rightarrow> Gateway \<Rightarrow> Service \<Rightarrow> bool" where
  "selects env gateway svc =
     (case env_selector env (spec_ServiceSelector (gw_Spec gateway)) of
        Inl err \<Rightarrow> False
      | Inr selector \<Rightarrow> selector (svc_Labels svc))"

text \<open>No fault is injected into the three API calls of a successful reconciliation.\<close>

definition calm :: "Env \<Rightarrow> NamespacedName \<Rightarrow> bool" where
  "calm env req \<longleftrightarrow> env_fault env (GetGateway req) = None
     \<and> env_fault env ListServiceObjects = None
     \<and> env_fault env (UpdateGatewayStatus req) = None"

text \<open>
  The Gateway stored under \<open>req\<close> is live: it bears the name it is stored under, is
  not marked for deletion and carries the finalizer.
\<close>

definition live_gateway :: "World \<Rightarrow> NamespacedName \<Rightarrow> Gateway \<Rightarrow> bool" where
  "live_gateway w req gateway \<longleftrightarrow> api_gateways w req = Some gateway \<and> gw_key gateway = req
     \<and> gw_DeletionTimestamp gateway = None \<and> ContainsFinalizer gateway gatewayFinalizer"

text \<open>The registry after the loop over the services that the selector lists.\<close>

definition registry_after :: "Env \<Rightarrow> Gateway \<Rightarrow> World \<Rightarrow> Registry" where
  "registry_after env gateway w =
     MCPRegistry (fold (registerMatching env) (filter (selects env gateway) (api_services w)) w)"

text \<open>A status entry without its timestamp.\<close>

definition untimed :: "MCPServiceInfo \<Rightarrow> MCPServiceInfo" where
  "untimed info = info\<lparr> info_LastUpdated := 0 \<rparr>"

text \<open>Every record of the registry is stored under its own name.\<close>

definition keyed :: "Registry \<Rightarrow> bool" where
  "keyed r \<longleftrightarrow> (\<forall>k m. services r k = Some m \<longrightarrow> k = NamespacedName (mcp_Namespace m) (mcp_Name m))"

definition info_key :: "MCPServiceInfo \<Rightarrow> NamespacedName" where
  "info_key info = NamespacedName (info_Namespace info) (info_Name info)"

text \<open>
  The first condition of the type of \<open>new\<close> already has its status, reason and
  message: the case in which \<^verbatim>\<open>updateGatewayCondition\<close> returns without writing.
\<close>

fun settled :: "Condition \<Rightarrow> Condition list \<Rightarrow> bool" where
  "settled new [] = False"
| "settled new (c # cs) =
     (if cond_Type c = cond_Type new
      then cond_Status c = cond_Status new \<and> cond_Reason c = cond_Reason new
             \<and> cond_Message c = cond_Message new
      else settled new cs)"

section \<open>Example objects\<close>

definition service_agent :: Service where
  "service_agent =
     \<lparr> svc_Name = ''s1'', svc_Namespace = ''ns'',
       svc_Labels = Some [''mcp-enabled'' \<mapsto> ''true'', ''app'' \<mapsto> ''a''],
       svc_Annotations = Some [''mcp.fetchfy.ai/type'' \<mapsto> ''agent''],
       svc_Type = ''ClusterIP'',
       svc_Ports = [\<lparr> port_Name = ''http'', port_Port = 8080 \<rparr>] \<rparr>"

definition service_tool :: Service where
  "service_tool =
     \<lparr> svc_Name = ''s2'', svc_Namespace = ''ns'',
       svc_Labels = Some [''mcp-enabled'' \<mapsto> ''true'', ''app'' \<mapsto> ''b''],
       svc_Annotations = Some [''mcp.fetchfy.ai/type'' \<mapsto> ''tool''],
       svc_Type = ''NodePort'',
       svc_Ports = [\<lparr> port_Name = ''http'', port_Port = 8080 \<rparr>] \<rparr>"


definition service_unannotated :: Service where
  "service_unannotated =
     \<lparr> svc_Name = ''s3'', svc_Namespace = ''ns'',
       svc_Labels = Some [''mcp-enabled'' \<mapsto> ''true''],
       svc_Annotations = None,
       svc_Type = ''ClusterIP'',
       svc_Ports = [\<lparr> port_Name = ''http'', port_Port = 8080 \<rparr>] \<rparr>"

definition example_gateway :: Gateway where
  "example_gateway =
     \<lparr> gw_Name = ''gw'', gw_Namespace = ''ns'', gw_Generation = 3,
       gw_DeletionTimestamp = None, gw_Finalizers = [''fetchfy.ai/finalizer''],
       gw_Spec = \<lparr> spec_MCPPort = 8080,
                   spec_ServiceSelector =
                     \<lparr> sel_MatchLabels = [(''app'', ''a'')], sel_MatchExpressions = [] \<rparr>,
                   spec_EnableTLS = False, spec_TLSSecretRef = [] \<rparr>,
       gw_Status = \<lparr> st_Conditions =
                       [\<lparr> cond_Type = ''Ready'', cond_Status = ''True'',
                          cond_LastTransitionTime = 1, cond_Reason = ''GatewayReady'',
                          cond_Message = ''ok'', cond_ObservedGeneration = 2 \<rparr>],
                     st_MCPServices = [], st_Address = [] \<rparr> \<rparr>"


definition other_gateway :: Gateway where
  "other_gateway =
     \<lparr> gw_Name = ''gw2'', gw_Namespace = ''ns'', gw_Generation = 1,
       gw_DeletionTimestamp = None, gw_Finalizers = [''fetchfy.ai/finalizer''],
       gw_Spec = \<lparr> spec_MCPPort = 9090,
                   spec_ServiceSelector =
                     \<lparr> sel_MatchLabels = [(''app'', ''b'')], sel_MatchExpressions = [] \<rparr>,
                   spec_EnableTLS = False, spec_TLSSecretRef = [] \<rparr>,
       gw_Status = \<lparr> st_Conditions = [], st_MCPServices = [], st_Address = [] \<rparr> \<rparr>"

definition deleted_gateway :: Gateway where
  "deleted_gateway =
     \<lparr> gw_Name = ''gw3'', gw_Namespace = ''ns'', gw_Generation = 1,
       gw_DeletionTimestamp = Some 5, gw_Finalizers = [''fetchfy.ai/finalizer''],
       gw_Spec = \<lparr> spec_MCPPort = 7070,
                   spec_ServiceSelector =
                     \<lparr> sel_MatchLabels = [(''app'', ''c'')], sel_MatchExpressions = [] \<rparr>,
                   spec_EnableTLS = False, spec_TLSSecretRef = [] \<rparr>,
       gw_Status = \<lparr> st_Conditions = [], st_MCPServices = [], st_Address = [] \<rparr> \<rparr>"

text \<open>
  The selector semantics used in the examples: a selector that consists of
  \<^verbatim>\<open>matchLabels\<close> only selects the label maps that carry every listed pair. None of
  the example selectors has match expressions.
\<close>

definition matchLabels_selector :: "LabelSelector \<Rightarrow> error + (go_map \<Rightarrow> bool)" where
  "matchLabels_selector sel =
     Inr (\<lambda>labels. list_all (\<lambda>kv. go_lookup labels (fst kv) = Some (snd kv)) (sel_MatchLabels sel))"

text \<open>
  An environment without faults, in which every clock reading is \<open>now\<close> and the
  registry is ranged over in the order \<open>ks\<close>.
\<close>

definition example_env :: "time \<Rightarrow> NamespacedName list \<Rightarrow> Env" where
  "example_env now ks =
     \<lparr> env_fault = (\<lambda>call. None), env_now = (\<lambda>s. now),
       env_selector = matchLabels_selector, env_shutdown = None,
       env_range_services = (\<lambda>key. ks),
       env_range_gateways = [NamespacedName ''ns'' ''gw'', NamespacedName ''ns'' ''gw2''] \<rparr>"

text \<open>
  A cluster with three Gateways and three services, before the operator has done
  anything; the third Gateway is marked for deletion and a listener is running for it.
\<close>

definition example_world :: World where
  "example_world =
     \<lparr> api_gateways = [NamespacedName ''ns'' ''gw'' \<mapsto> example_gateway,
                       NamespacedName ''ns'' ''gw2'' \<mapsto> other_gateway,
                       NamespacedName ''ns'' ''gw3'' \<mapsto> deleted_gateway],
       api_services = [service_agent, service_tool, service_unannotated],
       MCPRegistry = NewRegistry,
       sw_gateways = {NamespacedName ''ns'' ''gw3''},
       MCPServers = [NamespacedName ''ns'' ''gw3'' \<mapsto>
                       NewServer\<lparr> srv_httpServer := Some '':7070'', srv_port := 7070,
                                  srv_gatewayRef := NamespacedName ''ns'' ''gw3'',
                                  srv_started := True \<rparr>],
       trace = [] \<rparr>"

section \<open>Properties\<close>

subsection \<open>Ranging over maps, folding registrations\<close>

lemma range_values_length:
  "range_order m ks \<Longrightarrow> length (range_values m ks) = card (dom m)"
proof -
  assume a: "range_order m ks"
  then have "\<forall>k\<in>set ks. m k \<noteq> None" by (auto simp: range_order_def)
  then have "length (List.map_filter m ks) = length ks"
    by (induction ks) (auto simp: List.map_filter_simps)
  moreover have "length ks = card (dom m)"
    using a by (metis range_order_def distinct_card)
  ultimately show ?thesis by (simp add: range_values_def)
qed

lemma range_values_set:
  assumes "range_order m ks"
  shows "set (range_values m ks) = ran m"
proof -
  have "set (List.map_filter m ks) = {v. \<exists>k\<in>set ks. m k = Some v}" for ks
    by (induction ks) (auto simp: List.map_filter_simps split: option.splits)
  moreover have "{v. \<exists>k\<in>set ks. m k = Some v} = ran m"
    using assms unfolding range_order_def ran_def by blast
  ultimately show ?thesis by (simp add: range_values_def)
qed

lemma range_values_mem: "v \<in> set (range_values m ks) \<Longrightarrow> \<exists>k. m k = Some v"
  unfolding range_values_def by (induction ks) (auto simp: List.map_filter_simps split: option.splits)



lemma find_key_in: "find (\<lambda>x. f x = k) xs = Some x \<Longrightarrow> x \<in> set xs \<and> f x = k"
  by (induction xs) (auto split: if_splits)



lemma RegisterService_ok:
  "svc_Annotations svc \<noteq> None \<Longrightarrow>
   RegisterService now svc ty r =
     (Inr (registered (now, svc, ty)),
      r\<lparr> services := (services r)(svc_key svc \<mapsto> registered (now, svc, ty)) \<rparr>)"
  by (simp add: RegisterService_def registered_def Let_def svc_key_def)





lemma status_ok_register: "status_ok r \<Longrightarrow> status_ok (snd (RegisterService now svc ty r))"
  unfolding status_ok_def RegisterService_def Let_def by simp

lemma status_ok_deregister: "status_ok r \<Longrightarrow> status_ok (snd (DeregisterService name r))"
  unfolding status_ok_def DeregisterService_def by simp

lemma status_ok_apply: "status_ok r \<Longrightarrow> status_ok (apply_registry_op op r)"
  by (cases op) (simp_all add: status_ok_register status_ok_deregister)

lemma status_ok_fold: "status_ok r \<Longrightarrow> status_ok (fold apply_registry_op ops r)"
  by (induction ops arbitrary: r) (simp_all add: status_ok_apply)

lemma status_ok_run: "status_ok (fold apply_registry_op ops NewRegistry)"
  by (rule status_ok_fold) (simp add: status_ok_def NewRegistry_def)

lemma status_distinct:
  "ServiceStatusAvailable \<noteq> ServiceStatusPending"
  "ServiceStatusAvailable \<noteq> ServiceStatusUnavailable"
  "ServiceStatusPending \<noteq> ServiceStatusUnavailable"
  by (simp_all add: ServiceStatusAvailable_def ServiceStatusPending_def ServiceStatusUnavailable_def)


lemma ex_ann:
  "svc_Annotations service_agent \<noteq> None" "svc_Annotations service_tool \<noteq> None"
  by (simp_all add: service_agent_def service_tool_def)


subsection \<open>Registration\<close>




text \<open>
  Claim C5: a service that carries an annotations map is accepted, and the endpoint of
  the stored registration is the value of the annotation \<^verbatim>\<open>mcp.fetchfy.ai/endpoint\<close>,
  verbatim, when that key is present, and exactly \<^verbatim>\<open>/mcp/{namespace}/{name}\<close> when it
  is absent.
\<close>

theorem RegisterService_endpoint:
  assumes "svc_Annotations svc = Some a"
  shows "\<exists>m r'. RegisterService now svc serviceType r = (Inr m, r')
           \<and> services r' (NamespacedName (svc_Namespace svc) (svc_Name svc)) = Some m
           \<and> mcp_Endpoint m =
               (case a ''mcp.fetchfy.ai/endpoint'' of
                  None \<Rightarrow> ''/mcp/'' @ svc_Namespace svc @ ''/'' @ svc_Name svc
                | Some e \<Rightarrow> e)"
  using assms
  by (simp add: RegisterService_def Let_def go_lookup_def default_endpoint_def split: option.split)

theorem RegisterService_endpoint_witness:
  "svc_Annotations service_agent = Some [''mcp.fetchfy.ai/type'' \<mapsto> ''agent''] \<and>
   (\<exists>m r'. RegisterService 7 service_agent ServiceTypeAgent NewRegistry = (Inr m, r')
       \<and> services r' (NamespacedName ''ns'' ''s1'') = Some m
       \<and> mcp_Endpoint m = ''/mcp/ns/s1'')"
proof -
  have h: "svc_Annotations service_agent = Some [''mcp.fetchfy.ai/type'' \<mapsto> ''agent'']"
    by (simp add: service_agent_def)
  have n: "svc_Namespace service_agent = ''ns''" "svc_Name service_agent = ''s1''"
    by (simp_all add: service_agent_def)
  show ?thesis
    using h RegisterService_endpoint [OF h, of 7 ServiceTypeAgent NewRegistry]
    by (simp add: n)
qed

text \<open>
  Claim C10: an accepted service is Available exactly when its type is ClusterIP and
  its port list is not empty, and Pending exactly otherwise; no record of a registry
  reached from the empty one by registry operations has the status Unavailable, and
  neither has any entry that \<^verbatim>\<open>UpdateRegistryStatus\<close> projects from such a registry.
\<close>

theorem RegisterService_status:
  "(RegisterService now svc serviceType r = (Inr m, r') \<longrightarrow>
      (mcp_Status m = ServiceStatusAvailable
         \<longleftrightarrow> svc_Type svc = ''ClusterIP'' \<and> svc_Ports svc \<noteq> [])
    \<and> (mcp_Status m = ServiceStatusPending
         \<longleftrightarrow> \<not> (svc_Type svc = ''ClusterIP'' \<and> svc_Ports svc \<noteq> [])))
   \<and> (services (fold apply_registry_op ops NewRegistry) k = Some m' \<longrightarrow>
        mcp_Status m' \<noteq> ServiceStatusUnavailable)
   \<and> (info \<in> set (st_MCPServices (gw_Status
          (UpdateRegistryStatus ks (fold apply_registry_op ops NewRegistry) gateway))) \<longrightarrow>
        info_Status info \<noteq> ServiceStatusUnavailable)"
proof (intro conjI impI)
  assume a: "RegisterService now svc serviceType r = (Inr m, r')"
  have ann: "svc_Annotations svc \<noteq> None"
  proof
    assume "svc_Annotations svc = None"
    then have "RegisterService now svc serviceType r = (Inl (no_annotations_error svc), r)"
      by (simp add: RegisterService_def)
    then show False using a by simp
  qed
  have "m = registered (now, svc, serviceType)"
    using a RegisterService_ok [OF ann, of now serviceType r] by simp
  then have st: "mcp_Status m = (if svc_Type svc = ''ClusterIP'' \<and> svc_Ports svc \<noteq> []
                             then ServiceStatusAvailable else ServiceStatusPending)"
    by (simp add: registered_def corev1_ServiceTypeClusterIP_def)
  show "mcp_Status m = ServiceStatusAvailable \<longleftrightarrow> svc_Type svc = ''ClusterIP'' \<and> svc_Ports svc \<noteq> []"
    unfolding st using status_distinct(1) by simp
  show "mcp_Status m = ServiceStatusPending \<longleftrightarrow> \<not> (svc_Type svc = ''ClusterIP'' \<and> svc_Ports svc \<noteq> [])"
    unfolding st using status_distinct(1) by simp
next
  assume "services (fold apply_registry_op ops NewRegistry) k = Some m'"
  then have "mcp_Status m' = ServiceStatusAvailable \<or> mcp_Status m' = ServiceStatusPending"
    using status_ok_run [of ops] unfolding status_ok_def by blast
  then show "mcp_Status m' \<noteq> ServiceStatusUnavailable"
    using status_distinct by metis
next
  let ?r = "fold apply_registry_op ops NewRegistry"
  assume "info \<in> set (st_MCPServices (gw_Status (UpdateRegistryStatus ks ?r gateway)))"
  then have "info \<in> service_info ` set (range_values (services ?r) ks)"
    by (simp add: UpdateRegistryStatus_def)
  then obtain v where v: "v \<in> set (range_values (services ?r) ks)" "info = service_info v"
    by blast
  obtain k' where "services ?r k' = Some v" using range_values_mem [OF v(1)] by blast
  then have "mcp_Status v = ServiceStatusAvailable \<or> mcp_Status v = ServiceStatusPending"
    using status_ok_run [of ops] unfolding status_ok_def by blast
  then have "mcp_Status v \<noteq> ServiceStatusUnavailable"
    using status_distinct by metis
  then show "info_Status info \<noteq> ServiceStatusUnavailable"
    using v(2) by (simp add: service_info_def)
qed

theorem RegisterService_status_witness:
  "RegisterService 7 service_agent ServiceTypeAgent NewRegistry
     = (Inr (registered (7, service_agent, ServiceTypeAgent)),
        fold apply_registry_op [OpRegister 7 service_agent ServiceTypeAgent] NewRegistry)
   \<and> mcp_Status (registered (7, service_agent, ServiceTypeAgent)) = ServiceStatusAvailable
   \<and> svc_Type service_agent = ''ClusterIP'' \<and> svc_Ports service_agent \<noteq> []
   \<and> RegisterService 8 service_tool ServiceTypeTool NewRegistry
     = (Inr (registered (8, service_tool, ServiceTypeTool)),
        fold apply_registry_op [OpRegister 8 service_tool ServiceTypeTool] NewRegistry)
   \<and> mcp_Status (registered (8, service_tool, ServiceTypeTool)) = ServiceStatusPending
   \<and> svc_Type service_tool \<noteq> ''ClusterIP''
   \<and> services (fold apply_registry_op [OpRegister 7 service_agent ServiceTypeAgent] NewRegistry)
        (NamespacedName ''ns'' ''s1'') = Some (registered (7, service_agent, ServiceTypeAgent))
   \<and> mcp_Status (registered (7, service_agent, ServiceTypeAgent)) \<noteq> ServiceStatusUnavailable
   \<and> service_info (registered (7, service_agent, ServiceTypeAgent))
        \<in> set (st_MCPServices (gw_Status (UpdateRegistryStatus [NamespacedName ''ns'' ''s1'']
             (fold apply_registry_op [OpRegister 7 service_agent ServiceTypeAgent] NewRegistry)
             example_gateway)))
   \<and> info_Status (service_info (registered (7, service_agent, ServiceTypeAgent)))
        \<noteq> ServiceStatusUnavailable"
proof -
  let ?m = "registered (7, service_agent, ServiceTypeAgent)"
  let ?m2 = "registered (8, service_tool, ServiceTypeTool)"
  let ?ops = "[OpRegister 7 service_agent ServiceTypeAgent]"
  let ?r = "fold apply_registry_op ?ops NewRegistry"
  let ?r2 = "fold apply_registry_op [OpRegister 8 service_tool ServiceTypeTool] NewRegistry"
  let ?k = "NamespacedName ''ns'' ''s1''"
  have reg: "RegisterService 7 service_agent ServiceTypeAgent NewRegistry = (Inr ?m, ?r)"
    using RegisterService_ok [OF ex_ann(1), of 7 ServiceTypeAgent NewRegistry] by simp
  have reg2: "RegisterService 8 service_tool ServiceTypeTool NewRegistry = (Inr ?m2, ?r2)"
    using RegisterService_ok [OF ex_ann(2), of 8 ServiceTypeTool NewRegistry] by simp
  have ty: "svc_Type service_agent = ''ClusterIP''" "svc_Ports service_agent \<noteq> []"
    "svc_Type service_tool \<noteq> ''ClusterIP''"
    by (simp_all add: service_agent_def service_tool_def)
  have look: "services ?r ?k = Some ?m"
    using RegisterService_ok [OF ex_ann(1), of 7 ServiceTypeAgent NewRegistry]
    by (simp add: svc_key_def service_agent_def)
  have mem: "service_info ?m \<in> set (st_MCPServices (gw_Status
               (UpdateRegistryStatus [?k] ?r example_gateway)))"
    using look by (simp add: UpdateRegistryStatus_def range_values_def List.map_filter_simps)
  have 1: "mcp_Status ?m = ServiceStatusAvailable"
    using RegisterService_status [of 7 service_agent ServiceTypeAgent NewRegistry ?m ?r] reg ty
    by blast
  have 2: "mcp_Status ?m2 = ServiceStatusPending"
    using RegisterService_status [of 8 service_tool ServiceTypeTool NewRegistry ?m2 ?r2] reg2 ty
    by blast
  have 3: "mcp_Status ?m \<noteq> ServiceStatusUnavailable"
    using RegisterService_status [where ops = ?ops and k = ?k and m' = ?m] look by blast
  have 4: "info_Status (service_info ?m) \<noteq> ServiceStatusUnavailable"
    using RegisterService_status
      [where ops = ?ops and ks = "[?k]" and gateway = example_gateway and info = "service_info ?m"]
      mem by blast
  show ?thesis using reg reg2 ty look mem 1 2 3 4 by blast
qed

subsection \<open>Projection onto the Gateway status\<close>



subsection \<open>The listener\<close>

text \<open>
  Claim C9: after a successful \<^verbatim>\<open>Start\<close> the listener is running; a second
  \<^verbatim>\<open>Start\<close> fails with ``server already started'' and returns the listener
  unchanged, so \<^verbatim>\<open>IsRunning\<close> holds before and after the failed call. The failed
  call writes no field and holds the mutex throughout, so no reader can observe any
  other state in between. A \<^verbatim>\<open>Configure\<close> between the two calls changes nothing
  of this.
\<close>

theorem Start_twice:
  assumes "Start s = (None, s1)"
  shows "IsRunning s1 \<and> Start s1 = (Some already_started, s1) \<and> IsRunning (snd (Start s1))
     \<and> Start (Configure gateway s1) = (Some already_started, Configure gateway s1)
     \<and> IsRunning (Configure gateway s1)"
proof -
  have ns: "\<not> srv_started s"
  proof
    assume "srv_started s"
    then have "Start s = (Some already_started, s)" by (simp add: Start_def)
    then show False using assms by simp
  qed
  then have "s1 = s\<lparr> srv_httpServer := Some ('':'' @ fmt_d (srv_port s)), srv_started := True \<rparr>"
    using assms by (simp add: Start_def)
  then have "srv_started s1" by simp
  then show ?thesis by (simp add: Start_def IsRunning_def Configure_def)
qed

theorem Start_twice_witness:
  "Start NewServer
     = (None, NewServer\<lparr> srv_httpServer := Some '':0'', srv_started := True \<rparr>)
   \<and> IsRunning (NewServer\<lparr> srv_httpServer := Some '':0'', srv_started := True \<rparr>)
   \<and> Start (NewServer\<lparr> srv_httpServer := Some '':0'', srv_started := True \<rparr>)
       = (Some (Error ''server already started''),
          NewServer\<lparr> srv_httpServer := Some '':0'', srv_started := True \<rparr>)"
proof -
  have h: "Start NewServer
     = (None, NewServer\<lparr> srv_httpServer := Some '':0'', srv_started := True \<rparr>)"
    by (simp add: Start_def NewServer_def fmt_d_def nat_dec.simps)
  show ?thesis using h Start_twice [OF h] by (simp add: already_started_def)
qed

subsection \<open>Status conditions\<close>

lemma update_conditions_first_same:
  "\<forall>x\<in>set pre. cond_Type x \<noteq> cond_Type new \<Longrightarrow> cond_Type c = cond_Type new \<Longrightarrow>
   cond_Status c = cond_Status new \<and> cond_Reason c = cond_Reason new
     \<and> cond_Message c = cond_Message new \<Longrightarrow>
   update_conditions new (pre @ c # post) = pre @ c # post"
  by (induction pre) simp_all

lemma update_conditions_first_differs:
  "\<forall>x\<in>set pre. cond_Type x \<noteq> cond_Type new \<Longrightarrow> cond_Type c = cond_Type new \<Longrightarrow>
   \<not> (cond_Status c = cond_Status new \<and> cond_Reason c = cond_Reason new
      \<and> cond_Message c = cond_Message new) \<Longrightarrow>
   update_conditions new (pre @ c # post) = pre @ new # post"
  by (induction pre) auto

lemma update_conditions_absent:
  "\<forall>x\<in>set cs. cond_Type x \<noteq> cond_Type new \<Longrightarrow> update_conditions new cs = cs @ [new]"
  by (induction cs) simp_all

lemma new_condition_sel [simp]:
  "cond_Type (new_condition now g t s r m) = t"
  "cond_Status (new_condition now g t s r m) = s"
  "cond_Reason (new_condition now g t s r m) = r"
  "cond_Message (new_condition now g t s r m) = m"
  "cond_LastTransitionTime (new_condition now g t s r m) = now"
  "cond_ObservedGeneration (new_condition now g t s r m) = gw_Generation g"
  by (simp_all add: new_condition_def)

text \<open>
  Claim C6: \<^verbatim>\<open>updateGatewayCondition\<close> looks for the entry of the wanted type (the
  first one, should the list hold several). If its status, reason and message equal
  the new values, the Gateway is returned unchanged. If any of them differs, that entry
  is replaced at its position and the rest of the list is kept. If no entry has the
  type, the new entry is appended. The entry written carries the clock reading taken
  for this update and the generation of the Gateway.
\<close>

theorem updateGatewayCondition_semantics:
  "(st_Conditions (gw_Status gateway) = pre @ c # post
      \<and> (\<forall>x\<in>set pre. cond_Type x \<noteq> t) \<and> cond_Type c = t
      \<and> cond_Status c = s \<and> cond_Reason c = r \<and> cond_Message c = m
    \<longrightarrow> updateGatewayCondition now gateway t s r m = gateway)
   \<and> (st_Conditions (gw_Status gateway) = pre @ c # post
      \<and> (\<forall>x\<in>set pre. cond_Type x \<noteq> t) \<and> cond_Type c = t
      \<and> \<not> (cond_Status c = s \<and> cond_Reason c = r \<and> cond_Message c = m)
    \<longrightarrow> st_Conditions (gw_Status (updateGatewayCondition now gateway t s r m))
          = pre @ new_condition now gateway t s r m # post)
   \<and> ((\<forall>x\<in>set (st_Conditions (gw_Status gateway)). cond_Type x \<noteq> t)
    \<longrightarrow> st_Conditions (gw_Status (updateGatewayCondition now gateway t s r m))
          = st_Conditions (gw_Status gateway) @ [new_condition now gateway t s r m])
   \<and> new_condition now gateway t s r m
       = \<lparr> cond_Type = t, cond_Status = s, cond_LastTransitionTime = now,
           cond_Reason = r, cond_Message = m,
           cond_ObservedGeneration = gw_Generation gateway \<rparr>"
proof (intro conjI impI)
  let ?new = "new_condition now gateway t s r m"
  let ?cs = "st_Conditions (gw_Status gateway)"
  {
    assume a: "?cs = pre @ c # post \<and> (\<forall>x\<in>set pre. cond_Type x \<noteq> t) \<and> cond_Type c = t
            \<and> cond_Status c = s \<and> cond_Reason c = r \<and> cond_Message c = m"
    then have "update_conditions ?new ?cs = ?cs"
      using update_conditions_first_same [of pre ?new c post] by simp
    then show "updateGatewayCondition now gateway t s r m = gateway"
      by (simp add: updateGatewayCondition_def)
  }
  {
    assume a: "?cs = pre @ c # post \<and> (\<forall>x\<in>set pre. cond_Type x \<noteq> t) \<and> cond_Type c = t
            \<and> \<not> (cond_Status c = s \<and> cond_Reason c = r \<and> cond_Message c = m)"
    then have "update_conditions ?new ?cs = pre @ ?new # post"
      using update_conditions_first_differs [of pre ?new c post] by simp
    then show "st_Conditions (gw_Status (updateGatewayCondition now gateway t s r m))
                 = pre @ ?new # post"
      by (simp add: updateGatewayCondition_def)
  }
  {
    assume "\<forall>x\<in>set ?cs. cond_Type x \<noteq> t"
    then have "update_conditions ?new ?cs = ?cs @ [?new]"
      using update_conditions_absent [of ?cs ?new] by simp
    then show "st_Conditions (gw_Status (updateGatewayCondition now gateway t s r m))
                 = ?cs @ [?new]"
      by (simp add: updateGatewayCondition_def)
  }
  show "?new = \<lparr> cond_Type = t, cond_Status = s, cond_LastTransitionTime = now,
           cond_Reason = r, cond_Message = m,
           cond_ObservedGeneration = gw_Generation gateway \<rparr>"
    by (simp add: new_condition_def)
qed

theorem updateGatewayCondition_semantics_witness:
  "updateGatewayCondition 9 example_gateway ''Ready'' ''True'' ''GatewayReady'' ''ok''
     = example_gateway
   \<and> st_Conditions (gw_Status
        (updateGatewayCondition 9 example_gateway ''Ready'' ''False'' ''ServerError'' ''boom''))
       = [\<lparr> cond_Type = ''Ready'', cond_Status = ''False'',
             cond_LastTransitionTime = 9, cond_Reason = ''ServerError'',
             cond_Message = ''boom'', cond_ObservedGeneration = 3 \<rparr>]
   \<and> st_Conditions (gw_Status
        (updateGatewayCondition 9 example_gateway ''Available'' ''True'' ''GatewayConfigured'' ''up''))
       = st_Conditions (gw_Status example_gateway) @
         [\<lparr> cond_Type = ''Available'', cond_Status = ''True'',
             cond_LastTransitionTime = 9, cond_Reason = ''GatewayConfigured'',
             cond_Message = ''up'', cond_ObservedGeneration = 3 \<rparr>]"
proof -
  let ?c = "\<lparr> cond_Type = ''Ready'', cond_Status = ''True'',
              cond_LastTransitionTime = 1, cond_Reason = ''GatewayReady'',
              cond_Message = ''ok'', cond_ObservedGeneration = 2 \<rparr>"
  have cs: "st_Conditions (gw_Status example_gateway) = [] @ ?c # []"
    by (simp add: example_gateway_def)
  have gen: "gw_Generation example_gateway = 3"
    by (simp add: example_gateway_def)
  have 1: "updateGatewayCondition 9 example_gateway ''Ready'' ''True'' ''GatewayReady'' ''ok''
             = example_gateway"
    using updateGatewayCondition_semantics
      [of example_gateway "[]" ?c "[]" "''Ready''" "''True''" "''GatewayReady''" "''ok''" 9] cs
    by simp
  have 2: "st_Conditions (gw_Status
        (updateGatewayCondition 9 example_gateway ''Ready'' ''False'' ''ServerError'' ''boom''))
       = [\<lparr> cond_Type = ''Ready'', cond_Status = ''False'',
             cond_LastTransitionTime = 9, cond_Reason = ''ServerError'',
             cond_Message = ''boom'', cond_ObservedGeneration = 3 \<rparr>]"
    using updateGatewayCondition_semantics
      [of example_gateway "[]" ?c "[]" "''Ready''" "''False''" "''ServerError''" "''boom''" 9]
      cs gen
    by simp
  have 3: "st_Conditions (gw_Status
        (updateGatewayCondition 9 example_gateway ''Available'' ''True'' ''GatewayConfigured'' ''up''))
       = st_Conditions (gw_Status example_gateway) @
         [\<lparr> cond_Type = ''Available'', cond_Status = ''True'',
             cond_LastTransitionTime = 9, cond_Reason = ''GatewayConfigured'',
             cond_Message = ''up'', cond_ObservedGeneration = 3 \<rparr>]"
    using updateGatewayCondition_semantics
      [of example_gateway "[]" ?c "[]" "''Available''" "''True''" "''GatewayConfigured''" "''up''" 9]
      cs gen
    by simp
  from 1 2 3 show ?thesis by blast
qed

subsection \<open>The watcher's reconciliation of a service event\<close>

lemma Register_error_iff:
  "RegisterService now svc ty r = (Inl err, r') \<Longrightarrow>
   svc_Annotations svc = None \<and> err = no_annotations_error svc \<and> r' = r"
  by (cases "svc_Annotations svc = None") (simp_all add: RegisterService_def Let_def)

lemma example_get_s3:
  "client_Get_Service (example_env 7 []) (NamespacedName ''ns'' ''s3'') example_world
     = Inr service_unannotated"
  by (simp add: client_Get_Service_def example_env_def example_world_def svc_key_def
      service_agent_def service_tool_def service_unannotated_def)

lemma example_s3_enabled: "IsMCPEnabledService service_unannotated"
  by (simp add: IsMCPEnabledService_def service_unannotated_def go_lookup_def MCPEnabledLabel_def)

lemma example_s3_rejected:
  "RegisterService 7 service_unannotated ServiceTypeTool (MCPRegistry example_world)
     = (Inl (Error ''service ns/s3 has no annotations''), MCPRegistry example_world)"
  by (simp add: RegisterService_def service_unannotated_def no_annotations_error_def)

text \<open>
  Claim C1, as stated: when the service is fetched, carries the enablement label and
  \<^verbatim>\<open>RegisterService\<close> returns an error, the watcher's \<^verbatim>\<open>Reconcile\<close> returns no
  error. In the example cluster the labelled service s3 has no annotations map,
  registration fails, and \<^verbatim>\<open>Reconcile\<close> returns that very error.
\<close>

theorem ServiceWatcher_register_error_fails_reconcile:
  "client_Get_Service (example_env 7 []) (NamespacedName ''ns'' ''s3'') example_world
     = Inr service_unannotated
   \<and> IsMCPEnabledService service_unannotated
   \<and> isl (fst (RegisterService 7 service_unannotated ServiceTypeTool (MCPRegistry example_world)))
   \<and> snd (fst (ServiceWatcher_Reconcile (example_env 7 []) (NamespacedName ''ns'' ''s3'')
         example_world))
       = Some (Error ''service ns/s3 has no annotations'')"
proof -
  have "ServiceWatcher_Reconcile (example_env 7 []) (NamespacedName ''ns'' ''s3'') example_world
     = ((no_requeue, Some (Error ''service ns/s3 has no annotations'')),
        emit (LogError (Error ''service ns/s3 has no annotations'')
                ''Failed to register MCP service'') example_world)"
    unfolding ServiceWatcher_Reconcile_def example_get_s3
    using example_s3_enabled
    by (simp add: RegisterService_def service_unannotated_def no_annotations_error_def)
  then show ?thesis
    using example_get_s3 example_s3_enabled example_s3_rejected by simp
qed

text \<open>
  Claim C1, amended: in that situation the watcher logs the error and returns it to
  the dispatcher, with no requeue request of its own; the registry and the stored
  Gateways are as before, and the log line is the only thing the invocation does.
\<close>

theorem ServiceWatcher_register_error_returned:
  assumes get: "client_Get_Service env req w = Inr service"
    and en: "IsMCPEnabledService service"
    and reg: "RegisterService now service serviceType (MCPRegistry w) = (Inl err, r')"
  shows "ServiceWatcher_Reconcile env req w
           = ((no_requeue, Some err), emit (LogError err ''Failed to register MCP service'') w)
         \<and> MCPRegistry (snd (ServiceWatcher_Reconcile env req w)) = MCPRegistry w
         \<and> api_gateways (snd (ServiceWatcher_Reconcile env req w)) = api_gateways w
         \<and> trace (snd (ServiceWatcher_Reconcile env req w))
             = trace w @ [LogError err ''Failed to register MCP service'']"
proof -
  have ann: "svc_Annotations service = None" and err: "err = no_annotations_error service"
    using Register_error_iff [OF reg] by simp_all
  have r: "RegisterService now' service ty' (MCPRegistry w) = (Inl err, MCPRegistry w)" for now' ty'
    using ann err by (simp add: RegisterService_def)
  have "ServiceWatcher_Reconcile env req w
           = ((no_requeue, Some err), emit (LogError err ''Failed to register MCP service'') w)"
    unfolding ServiceWatcher_Reconcile_def get using en by (simp add: r ann)
  then show ?thesis by (simp add: emit_def)
qed

theorem ServiceWatcher_register_error_returned_witness:
  "client_Get_Service (example_env 7 []) (NamespacedName ''ns'' ''s3'') example_world
     = Inr service_unannotated
   \<and> IsMCPEnabledService service_unannotated
   \<and> RegisterService 7 service_unannotated ServiceTypeTool (MCPRegistry example_world)
     = (Inl (Error ''service ns/s3 has no annotations''), MCPRegistry example_world)
   \<and> ServiceWatcher_Reconcile (example_env 7 []) (NamespacedName ''ns'' ''s3'') example_world
     = ((no_requeue, Some (Error ''service ns/s3 has no annotations'')),
        emit (LogError (Error ''service ns/s3 has no annotations'')
                ''Failed to register MCP service'') example_world)"
  using ServiceWatcher_register_error_returned
          [OF example_get_s3 example_s3_enabled example_s3_rejected]
        example_get_s3 example_s3_enabled example_s3_rejected
  by blast

subsection \<open>The Gateway reconciler: traces\<close>

lemma releases_simps [simp]:
  "releases (ApiUpdate g) \<longleftrightarrow> \<not> ContainsFinalizer g gatewayFinalizer"
  "\<not> releases (LogInfo s)" "\<not> releases (LogError e s)"
  "\<not> releases (ServerStarted k)" "\<not> releases (ServerStopped k)" "\<not> releases (ServerDiscarded k)"
  "\<not> releases (GatewayTracked k)" "\<not> releases (GatewayUntracked k)"
  "\<not> releases (ApiStatusUpdate g)"
  by (simp_all add: releases_def)

lemma nrs_refl: "no_release_since w w"
  by (simp add: no_release_since_def)

lemma nrs_trans: "no_release_since w w1 \<Longrightarrow> no_release_since w1 w2 \<Longrightarrow> no_release_since w w2"
  unfolding no_release_since_def by (metis append.assoc list_all_append)

lemma nrs_emit: "\<not> releases e \<Longrightarrow> no_release_since w (emit e w)"
  by (simp add: no_release_since_def emit_def)

lemma nrs_emit': "\<not> releases e \<Longrightarrow> no_release_since w w1 \<Longrightarrow> no_release_since w (emit e w1)"
  using nrs_trans nrs_emit by blast

lemma nrs_same_trace: "trace w1 = trace w \<Longrightarrow> no_release_since w w1"
  by (simp add: no_release_since_def)

lemma trace_emit [simp]: "trace (emit e w) = trace w @ [e]"
  by (simp add: emit_def)

lemma emit_fields [simp]:
  "api_gateways (emit e w) = api_gateways w"
  "api_services (emit e w) = api_services w"
  "MCPRegistry (emit e w) = MCPRegistry w"
  "sw_gateways (emit e w) = sw_gateways w"
  "MCPServers (emit e w) = MCPServers w"
  by (simp_all add: emit_def)

lemma cleanup_trace:
  "trace (cleanupGateway env k w) = trace w @ cleanup_events env k w"
  by (simp add: cleanupGateway_def cleanup_events_def RemoveGateway_def Let_def
      split: option.split prod.split)

lemma cleanup_state:
  "MCPServers (cleanupGateway env k w) k = None"
  "k \<notin> sw_gateways (cleanupGateway env k w)"
  "api_gateways (cleanupGateway env k w) = api_gateways w"
  by (simp_all add: cleanupGateway_def RemoveGateway_def Let_def split: option.split prod.split)

lemma cleanup_events_no_release: "list_all (\<lambda>e. \<not> releases e) (cleanup_events env k w)"
  by (simp add: cleanup_events_def split: option.split)

lemma cleanup_events_mem:
  "GatewayUntracked k \<in> set (cleanup_events env k w)"
  "MCPServers w k \<noteq> None \<Longrightarrow> ServerStopped k \<in> set (cleanup_events env k w)"
  "MCPServers w k \<noteq> None \<Longrightarrow> ServerDiscarded k \<in> set (cleanup_events env k w)"
  by (auto simp: cleanup_events_def split: option.split)

lemma nrs_cleanup: "no_release_since w (cleanupGateway env k w)"
  unfolding no_release_since_def using cleanup_trace cleanup_events_no_release by blast

lemma client_Update_trace:
  "trace (snd (client_Update env g w)) = trace w @ [ApiUpdate g]"
  by (simp add: client_Update_def Let_def split: option.split)

lemma client_Update_fields:
  "MCPServers (snd (client_Update env g w)) = MCPServers w"
  "sw_gateways (snd (client_Update env g w)) = sw_gateways w"
  by (simp_all add: client_Update_def Let_def split: option.split)

lemma client_Status_Update_trace:
  "trace (snd (client_Status_Update env g w)) = trace w @ [ApiStatusUpdate g]"
  by (simp add: client_Status_Update_def Let_def split: option.split)

lemma nrs_status_update: "no_release_since w (snd (client_Status_Update env g w))"
  by (simp add: no_release_since_def client_Status_Update_trace)

lemma nrs_ensure: "no_release_since w (snd (ensureMCPServer g w))"
  by (simp add: ensureMCPServer_def Let_def no_release_since_def split: prod.split option.split)

lemma nrs_AddGateway: "no_release_since w (AddGateway g w)"
  by (simp add: AddGateway_def no_release_since_def)

lemma nrs_registerMatching: "no_release_since w (registerMatching env svc w)"
  by (simp add: registerMatching_def Let_def no_release_since_def split: prod.split sum.split)

lemma nrs_fold_register: "no_release_since w (fold (registerMatching env) svcs w)"
proof (induction svcs arbitrary: w)
  case Nil
  show ?case by (simp add: nrs_refl)
next
  case (Cons s svcs)
  show ?case using nrs_trans [OF nrs_registerMatching Cons.IH] by simp
qed

lemma publishStatus_eq:
  "publishStatus env g w =
     (case client_Status_Update env (final_gateway env g (MCPRegistry w)) w of
           (Some err, w1) \<Rightarrow>
             ((\<lparr> Requeue = False, RequeueAfter = 60 \<rparr>, Some err),
              emit (LogError err ''Failed to update Gateway status'') w1)
         | (None, w1) \<Rightarrow> ((\<lparr> Requeue = False, RequeueAfter = 300 \<rparr>, None), w1))"
  by (simp add: publishStatus_def final_gateway_def Let_def)

lemma nrs_publish: "no_release_since w (snd (publishStatus env g w))"
proof -
  obtain e w1 where c: "client_Status_Update env (final_gateway env g (MCPRegistry w)) w = (e, w1)"
    by (cases "client_Status_Update env (final_gateway env g (MCPRegistry w)) w") blast
  have n: "no_release_since w w1"
    using nrs_status_update [of w env "final_gateway env g (MCPRegistry w)"] c by simp
  show ?thesis
    unfolding publishStatus_eq c using n by (cases e) (simp_all add: nrs_emit')
qed

lemma split_at_unique:
  "xs @ a # ys = pre @ b # post \<Longrightarrow> list_all (\<lambda>e. \<not> P e) xs \<Longrightarrow> list_all (\<lambda>e. \<not> P e) ys \<Longrightarrow>
   P b \<Longrightarrow> pre = xs \<and> b = a \<and> post = ys"
proof (induction xs arbitrary: pre)
  case Nil
  show ?case
  proof (cases pre)
    case Nil
    then show ?thesis using Nil.prems by simp
  next
    case (Cons p pre')
    then have "b \<in> set ys" using Nil.prems(1) by auto
    then show ?thesis using Nil.prems(3,4) by (simp add: list_all_iff)
  qed
next
  case (Cons x xs)
  show ?case
  proof (cases pre)
    case Nil
    then have "b = x" using Cons.prems(1) by simp
    then show ?thesis using Cons.prems(2,4) by simp
  next
    case (Cons p pre')
    then have "xs @ a # ys = pre' @ b # post" and "p = x" using Cons.prems(1) by simp_all
    then show ?thesis using Cons.IH [of pre'] Cons.prems Cons by simp
  qed
qed

lemma no_release_contra:
  assumes "no_release_since w w'" "trace w' = trace w @ pre @ e # post" "releases e"
  shows False
proof -
  obtain es where es: "trace w' = trace w @ es" "list_all (\<lambda>e. \<not> releases e) es"
    using assms(1) unfolding no_release_since_def by blast
  then have "es = pre @ e # post" using assms(2) by simp
  then show False using es(2) assms(3) by simp
qed

lemma AddFinalizer_contains: "ContainsFinalizer (AddFinalizer g f) f"
  by (simp add: ContainsFinalizer_def AddFinalizer_def)

lemma nrs_add_finalizer:
  "no_release_since w (snd (case client_Update env (AddFinalizer g gatewayFinalizer) w of
               (Some err, w1) \<Rightarrow>
                 ((no_requeue, Some err), emit (LogError err ''Failed to add finalizer'') w1)
             | (None, w1) \<Rightarrow> ((\<lparr> Requeue = True, RequeueAfter = 0 \<rparr>, None), w1)))"
proof -
  obtain e w1 where c: "client_Update env (AddFinalizer g gatewayFinalizer) w = (e, w1)"
    by (cases "client_Update env (AddFinalizer g gatewayFinalizer) w") blast
  have "trace w1 = trace w @ [ApiUpdate (AddFinalizer g gatewayFinalizer)]"
    using client_Update_trace [of env "AddFinalizer g gatewayFinalizer" w] c by simp
  then have n: "no_release_since w w1"
    by (simp add: no_release_since_def AddFinalizer_contains)
  show ?thesis unfolding c using n by (cases e) (simp_all add: nrs_emit')
qed

lemma nrs_normal_path:
  "no_release_since w (snd (case ensureMCPServer gateway w of
               (Some err, w1) \<Rightarrow>
                 ((\<lparr> Requeue = False, RequeueAfter = 30 \<rparr>, Some err),
                  emit (LogError err ''Failed to ensure MCP server'') w1)
             | (None, w1) \<Rightarrow>
                 let w2 = AddGateway gateway w1 in
                 (case GetMatchingServices env gateway w2 of
                    Inl err \<Rightarrow>
                      ((\<lparr> Requeue = False, RequeueAfter = 30 \<rparr>, Some err),
                       emit (LogError err ''Failed to list matching services'') w2)
                  | Inr matchingServices \<Rightarrow>
                      publishStatus env gateway (fold (registerMatching env) matchingServices w2))))"
proof -
  obtain e w1 where c: "ensureMCPServer gateway w = (e, w1)"
    by (cases "ensureMCPServer gateway w") blast
  have n1: "no_release_since w w1" using nrs_ensure [of w gateway] c by simp
  have n2: "no_release_since w (AddGateway gateway w1)"
    using nrs_trans [OF n1 nrs_AddGateway] .
  show ?thesis
  proof (cases e)
    case (Some err)
    then show ?thesis unfolding c using n1 by (simp add: nrs_emit')
  next
    case None
    show ?thesis
    proof (cases "GetMatchingServices env gateway (AddGateway gateway w1)")
      case (Inl err)
      then show ?thesis unfolding c using None n2 by (simp add: nrs_emit')
    next
      case (Inr svcs)
      have "no_release_since w (snd (publishStatus env gateway
               (fold (registerMatching env) svcs (AddGateway gateway w1))))"
        using nrs_trans [OF nrs_trans [OF n2 nrs_fold_register] nrs_publish] .
      then show ?thesis unfolding c using None Inr by simp
    qed
  qed
qed

lemma release_only_in_deletion:
  assumes run: "GatewayReconciler_Reconcile env req w = (res, w')"
    and tr: "trace w' = trace w @ pre @ ApiUpdate g' # post"
    and rel: "\<not> ContainsFinalizer g' gatewayFinalizer"
  shows "\<exists>gateway. client_Get_Gateway env req w = Inr gateway
          \<and> gw_DeletionTimestamp gateway \<noteq> None
          \<and> g' = RemoveFinalizer gateway gatewayFinalizer
          \<and> pre = LogInfo ''Handling deletion of Gateway'' # cleanup_events env (gw_key gateway) w
          \<and> GatewayUntracked (gw_key gateway) \<in> set pre
          \<and> (MCPServers w (gw_key gateway) \<noteq> None \<longrightarrow>
               ServerStopped (gw_key gateway) \<in> set pre \<and> ServerDiscarded (gw_key gateway) \<in> set pre)
          \<and> MCPServers w' (gw_key gateway) = None
          \<and> gw_key gateway \<notin> sw_gateways w'"
proof -
  have relE: "releases (ApiUpdate g')" using rel by simp
  have w': "w' = snd (GatewayReconciler_Reconcile env req w)" using run by simp
  show ?thesis
  proof (cases "client_Get_Gateway env req w")
    case (Inl err)
    have "no_release_since w w'"
      unfolding w' GatewayReconciler_Reconcile_def Inl
      by (simp add: nrs_cleanup nrs_emit)
    then show ?thesis using no_release_contra [OF _ tr relE] by blast
  next
    case (Inr gateway)
    let ?k = "gw_key gateway"
    show ?thesis
    proof (cases "gw_DeletionTimestamp gateway \<noteq> None")
      case False
      have "no_release_since w w'"
      proof (cases "ContainsFinalizer gateway gatewayFinalizer")
        case True
        show ?thesis
          unfolding w' GatewayReconciler_Reconcile_def Inr using False True
          by (simp add: nrs_normal_path)
      next
        case nf: False
        show ?thesis
          unfolding w' GatewayReconciler_Reconcile_def Inr using False nf
          by (simp add: nrs_add_finalizer)
      qed
      then show ?thesis using no_release_contra [OF _ tr relE] by blast
    next
      case True
      let ?w1 = "emit (LogInfo ''Handling deletion of Gateway'') w"
      let ?w2 = "cleanupGateway env ?k ?w1"
      have hd: "w' = snd (handleDeletion env gateway w)"
        unfolding w' GatewayReconciler_Reconcile_def Inr using True by simp
      have t2: "trace ?w2 = trace w @ LogInfo ''Handling deletion of Gateway'' # cleanup_events env ?k w"
        by (simp add: cleanup_trace cleanup_events_def)
      have s2: "MCPServers ?w2 ?k = None" "?k \<notin> sw_gateways ?w2"
        using cleanup_state(1,2) [where k = ?k and env = env and w = ?w1] by simp_all
      show ?thesis
      proof (cases "ContainsFinalizer gateway gatewayFinalizer")
        case False
        have "w' = ?w2"
          unfolding hd handleDeletion_def Let_def gw_key_def using False by simp
        then have "no_release_since w w'"
          using t2 cleanup_events_no_release [of env ?k w] by (simp add: no_release_since_def)
        then show ?thesis using no_release_contra [OF _ tr relE] by blast
      next
        case cf: True
        let ?gr = "RemoveFinalizer gateway gatewayFinalizer"
        obtain e w3 where c: "client_Update env ?gr ?w2 = (e, w3)"
          by (cases "client_Update env ?gr ?w2") blast
        have t3: "trace w3 = trace ?w2 @ [ApiUpdate ?gr]"
          using client_Update_trace [of env ?gr ?w2] c by simp
        have s3: "MCPServers w3 = MCPServers ?w2" "sw_gateways w3 = sw_gateways ?w2"
          using client_Update_fields [of env ?gr ?w2] c by simp_all
        have w'eq: "w' = (case e of Some err \<Rightarrow> emit (LogError err ''Failed to remove finalizer'') w3
                          | None \<Rightarrow> w3)"
          unfolding hd handleDeletion_def Let_def using cf c
          by (simp add: gw_key_def split: option.split)
        obtain tail where tail: "trace w' = trace w3 @ tail" "list_all (\<lambda>e. \<not> releases e) tail"
          "MCPServers w' = MCPServers w3" "sw_gateways w' = sw_gateways w3"
          unfolding w'eq by (cases e) simp_all
        have "(LogInfo ''Handling deletion of Gateway'' # cleanup_events env ?k w) @ ApiUpdate ?gr # tail
                = pre @ ApiUpdate g' # post"
          using tr tail(1) t3 t2 by simp
        from split_at_unique [OF this _ tail(2) relE]
        have pre: "pre = LogInfo ''Handling deletion of Gateway'' # cleanup_events env ?k w"
          and g': "ApiUpdate g' = ApiUpdate ?gr"
          using cleanup_events_no_release [of env ?k w] by simp_all
        have m1: "GatewayUntracked ?k \<in> set pre"
          unfolding pre using cleanup_events_mem(1) [where k = ?k and env = env and w = w] by simp
        have m2: "MCPServers w ?k \<noteq> None \<longrightarrow> ServerStopped ?k \<in> set pre \<and> ServerDiscarded ?k \<in> set pre"
          unfolding pre using cleanup_events_mem(2,3) [where k = ?k and env = env and w = w] by simp
        have "client_Get_Gateway env req w = Inr gateway \<and> gw_DeletionTimestamp gateway \<noteq> None
              \<and> g' = ?gr \<and> pre = LogInfo ''Handling deletion of Gateway'' # cleanup_events env ?k w
              \<and> GatewayUntracked ?k \<in> set pre
              \<and> (MCPServers w ?k \<noteq> None \<longrightarrow> ServerStopped ?k \<in> set pre \<and> ServerDiscarded ?k \<in> set pre)
              \<and> MCPServers w' ?k = None \<and> ?k \<notin> sw_gateways w'"
          using Inr True g' pre m1 m2 tail(3,4) s3 s2 by simp
        then show ?thesis by blast
      qed
    qed
  qed
qed

lemma example_get_gw3:
  "client_Get_Gateway (example_env 7 []) (NamespacedName ''ns'' ''gw3'') example_world
     = Inr deleted_gateway"
  by (simp add: client_Get_Gateway_def example_env_def example_world_def)

lemma deleted_gateway_facts:
  "gw_DeletionTimestamp deleted_gateway = Some 5"
  "gw_key deleted_gateway = NamespacedName ''ns'' ''gw3''"
  "ContainsFinalizer deleted_gateway gatewayFinalizer"
  "RemoveFinalizer deleted_gateway gatewayFinalizer = deleted_gateway\<lparr> gw_Finalizers := [] \<rparr>"
  by (simp_all add: deleted_gateway_def gw_key_def ContainsFinalizer_def RemoveFinalizer_def
      gatewayFinalizer_def)

lemma example_cleanup_events:
  "cleanup_events (example_env 7 []) (NamespacedName ''ns'' ''gw3'') example_world
     = [LogInfo ''Cleaning up resources for gateway'',
        ServerStopped (NamespacedName ''ns'' ''gw3''),
        ServerDiscarded (NamespacedName ''ns'' ''gw3''),
        GatewayUntracked (NamespacedName ''ns'' ''gw3''),
        LogInfo ''Removed gateway from service watcher'']"
  by (simp add: cleanup_events_def example_world_def example_env_def Stop_def NewServer_def)

lemma example_deletion_trace:
  "trace (snd (GatewayReconciler_Reconcile (example_env 7 []) (NamespacedName ''ns'' ''gw3'')
                 example_world))
     = [LogInfo ''Handling deletion of Gateway'',
        LogInfo ''Cleaning up resources for gateway'',
        ServerStopped (NamespacedName ''ns'' ''gw3''),
        ServerDiscarded (NamespacedName ''ns'' ''gw3''),
        GatewayUntracked (NamespacedName ''ns'' ''gw3''),
        LogInfo ''Removed gateway from service watcher'',
        ApiUpdate (deleted_gateway\<lparr> gw_Finalizers := [] \<rparr>)]"
proof -
  let ?env = "example_env 7 []"
  let ?k = "NamespacedName ''ns'' ''gw3''"
  let ?w2 = "cleanupGateway ?env ?k (emit (LogInfo ''Handling deletion of Gateway'') example_world)"
  have t0: "trace example_world = []" by (simp add: example_world_def)
  have t2: "trace ?w2 = LogInfo ''Handling deletion of Gateway'' # cleanup_events ?env ?k example_world"
    using t0 by (simp add: cleanup_trace cleanup_events_def)
  have ag: "api_gateways ?w2 ?k = Some deleted_gateway"
    by (simp add: cleanup_state(3) example_world_def)
  have nf: "env_fault ?env (UpdateGateway ?k) = None" by (simp add: example_env_def)
  have fst_upd: "fst (client_Update ?env (deleted_gateway\<lparr> gw_Finalizers := [] \<rparr>) ?w2) = None"
    using ag nf by (simp add: client_Update_def Let_def gw_key_def deleted_gateway_def)
  obtain w3 where c: "client_Update ?env (deleted_gateway\<lparr> gw_Finalizers := [] \<rparr>) ?w2 = (None, w3)"
    using fst_upd by (cases "client_Update ?env (deleted_gateway\<lparr> gw_Finalizers := [] \<rparr>) ?w2") simp
  have "snd (GatewayReconciler_Reconcile ?env ?k example_world) = w3"
    unfolding GatewayReconciler_Reconcile_def example_get_gw3 handleDeletion_def Let_def
    using deleted_gateway_facts c
    by (simp add: gw_key_def)
  then show ?thesis
    using client_Update_trace [of ?env "deleted_gateway\<lparr> gw_Finalizers := [] \<rparr>" ?w2] t2 c
    by (simp add: example_cleanup_events)
qed

lemma deletion_path:
  assumes run: "GatewayReconciler_Reconcile env req w = (res, w')"
    and get: "client_Get_Gateway env req w = Inr gateway"
    and del: "gw_DeletionTimestamp gateway \<noteq> None"
  shows "(\<exists>tail. trace w' = trace w @ LogInfo ''Handling deletion of Gateway'' #
                      cleanup_events env (gw_key gateway) w @
                      (if ContainsFinalizer gateway gatewayFinalizer
                       then ApiUpdate (RemoveFinalizer gateway gatewayFinalizer) # tail else [])
                \<and> list_all (\<lambda>e. \<not> releases e) tail)
         \<and> MCPServers w' (gw_key gateway) = None
         \<and> gw_key gateway \<notin> sw_gateways w'"
proof -
  let ?k = "gw_key gateway"
  let ?w1 = "emit (LogInfo ''Handling deletion of Gateway'') w"
  let ?w2 = "cleanupGateway env ?k ?w1"
  have hd: "w' = snd (handleDeletion env gateway w)"
    using run unfolding GatewayReconciler_Reconcile_def get using del by simp
  have t2: "trace ?w2 = trace w @ LogInfo ''Handling deletion of Gateway'' # cleanup_events env ?k w"
    by (simp add: cleanup_trace cleanup_events_def)
  have s2: "MCPServers ?w2 ?k = None" "?k \<notin> sw_gateways ?w2"
    using cleanup_state(1,2) [where k = ?k and env = env and w = ?w1] by simp_all
  show ?thesis
  proof (cases "ContainsFinalizer gateway gatewayFinalizer")
    case False
    have "w' = ?w2"
      unfolding hd handleDeletion_def Let_def gw_key_def using False by simp
    then have "trace w' = trace w @ LogInfo ''Handling deletion of Gateway'' #
                      cleanup_events env ?k w @
                      (if ContainsFinalizer gateway gatewayFinalizer
                       then ApiUpdate (RemoveFinalizer gateway gatewayFinalizer) # [] else [])
                \<and> list_all (\<lambda>e. \<not> releases e) []"
      and "MCPServers w' ?k = None" and "?k \<notin> sw_gateways w'"
      using t2 s2 False by simp_all
    then show ?thesis by blast
  next
    case cf: True
    let ?gr = "RemoveFinalizer gateway gatewayFinalizer"
    obtain e w3 where c: "client_Update env ?gr ?w2 = (e, w3)"
      by (cases "client_Update env ?gr ?w2") blast
    have t3: "trace w3 = trace ?w2 @ [ApiUpdate ?gr]"
      using client_Update_trace [of env ?gr ?w2] c by simp
    have s3: "MCPServers w3 = MCPServers ?w2" "sw_gateways w3 = sw_gateways ?w2"
      using client_Update_fields [of env ?gr ?w2] c by simp_all
    have w'eq: "w' = (case e of Some err \<Rightarrow> emit (LogError err ''Failed to remove finalizer'') w3
                      | None \<Rightarrow> w3)"
      unfolding hd handleDeletion_def Let_def using cf c
      by (simp add: gw_key_def split: option.split)
    obtain tail where tail: "trace w' = trace w3 @ tail" "list_all (\<lambda>e. \<not> releases e) tail"
      "MCPServers w' = MCPServers w3" "sw_gateways w' = sw_gateways w3"
      unfolding w'eq by (cases e) simp_all
    have "trace w' = trace w @ LogInfo ''Handling deletion of Gateway'' #
                      cleanup_events env ?k w @ ApiUpdate ?gr # tail"
      using tail(1) t3 t2 by simp
    then have "trace w' = trace w @ LogInfo ''Handling deletion of Gateway'' #
                      cleanup_events env ?k w @
                      (if ContainsFinalizer gateway gatewayFinalizer
                       then ApiUpdate (RemoveFinalizer gateway gatewayFinalizer) # tail else [])
                \<and> list_all (\<lambda>e. \<not> releases e) tail"
      and "MCPServers w' ?k = None" and "?k \<notin> sw_gateways w'"
      using tail(2,3,4) s3 s2 cf by simp_all
    then show ?thesis by blast
  qed
qed

text \<open>
  Claim C7: when the fetched Gateway has its deletion timestamp set, the invocation
  first runs the cleanup (the listener, if one is owned, is stopped and discarded, and
  the Gateway is untracked from the watcher) and only then, if the finalizer is
  present, sends the update that removes it; afterwards no listener is owned and the
  Gateway is not tracked. Conversely, whenever an invocation of \<^verbatim>\<open>Reconcile\<close> sends
  an update whose object lacks the finalizer, the fetched Gateway was marked for
  deletion, the object is that Gateway without the finalizer, and everything the
  invocation did before is the cleanup: no other path releases the resource.
\<close>

theorem finalizer_removed_only_after_cleanup:
  assumes run: "GatewayReconciler_Reconcile env req w = (res, w')"
  shows "(client_Get_Gateway env req w = Inr gateway \<and> gw_DeletionTimestamp gateway \<noteq> None \<longrightarrow>
            (\<exists>tail. trace w' = trace w @ LogInfo ''Handling deletion of Gateway'' #
                        cleanup_events env (gw_key gateway) w @
                        (if ContainsFinalizer gateway gatewayFinalizer
                         then ApiUpdate (RemoveFinalizer gateway gatewayFinalizer) # tail else [])
                  \<and> list_all (\<lambda>e. \<not> releases e) tail)
            \<and> GatewayUntracked (gw_key gateway) \<in> set (cleanup_events env (gw_key gateway) w)
            \<and> (MCPServers w (gw_key gateway) \<noteq> None \<longrightarrow>
                 ServerStopped (gw_key gateway) \<in> set (cleanup_events env (gw_key gateway) w)
                 \<and> ServerDiscarded (gw_key gateway) \<in> set (cleanup_events env (gw_key gateway) w))
            \<and> MCPServers w' (gw_key gateway) = None
            \<and> gw_key gateway \<notin> sw_gateways w')
       \<and> (trace w' = trace w @ pre @ ApiUpdate g' # post
            \<and> \<not> ContainsFinalizer g' gatewayFinalizer \<longrightarrow>
            (\<exists>deleted. client_Get_Gateway env req w = Inr deleted
               \<and> gw_DeletionTimestamp deleted \<noteq> None
               \<and> g' = RemoveFinalizer deleted gatewayFinalizer
               \<and> pre = LogInfo ''Handling deletion of Gateway'' #
                        cleanup_events env (gw_key deleted) w))"
proof (intro conjI impI)
  assume a: "client_Get_Gateway env req w = Inr gateway \<and> gw_DeletionTimestamp gateway \<noteq> None"
  note dp = deletion_path [OF run conjunct1 [OF a] conjunct2 [OF a]]
  show "\<exists>tail. trace w' = trace w @ LogInfo ''Handling deletion of Gateway'' #
                        cleanup_events env (gw_key gateway) w @
                        (if ContainsFinalizer gateway gatewayFinalizer
                         then ApiUpdate (RemoveFinalizer gateway gatewayFinalizer) # tail else [])
                  \<and> list_all (\<lambda>e. \<not> releases e) tail"
    using dp by blast
  show "MCPServers w' (gw_key gateway) = None" using dp by blast
  show "gw_key gateway \<notin> sw_gateways w'" using dp by blast
  show "GatewayUntracked (gw_key gateway) \<in> set (cleanup_events env (gw_key gateway) w)"
    by (rule cleanup_events_mem(1))
  {
    assume s: "MCPServers w (gw_key gateway) \<noteq> None"
    show "ServerStopped (gw_key gateway) \<in> set (cleanup_events env (gw_key gateway) w)"
      by (rule cleanup_events_mem(2) [OF s])
    show "ServerDiscarded (gw_key gateway) \<in> set (cleanup_events env (gw_key gateway) w)"
      by (rule cleanup_events_mem(3) [OF s])
  }
next
  assume b: "trace w' = trace w @ pre @ ApiUpdate g' # post
            \<and> \<not> ContainsFinalizer g' gatewayFinalizer"
  show "\<exists>deleted. client_Get_Gateway env req w = Inr deleted
               \<and> gw_DeletionTimestamp deleted \<noteq> None
               \<and> g' = RemoveFinalizer deleted gatewayFinalizer
               \<and> pre = LogInfo ''Handling deletion of Gateway'' #
                        cleanup_events env (gw_key deleted) w"
    using release_only_in_deletion [OF run conjunct1 [OF b] conjunct2 [OF b]] by blast
qed

theorem finalizer_removed_only_after_cleanup_witness:
  "client_Get_Gateway (example_env 7 []) (NamespacedName ''ns'' ''gw3'') example_world
     = Inr deleted_gateway
   \<and> gw_DeletionTimestamp deleted_gateway \<noteq> None
   \<and> MCPServers example_world (NamespacedName ''ns'' ''gw3'') \<noteq> None
   \<and> trace (snd (GatewayReconciler_Reconcile (example_env 7 []) (NamespacedName ''ns'' ''gw3'')
                 example_world))
       = trace example_world @
         [LogInfo ''Handling deletion of Gateway'',
          LogInfo ''Cleaning up resources for gateway'',
          ServerStopped (NamespacedName ''ns'' ''gw3''),
          ServerDiscarded (NamespacedName ''ns'' ''gw3''),
          GatewayUntracked (NamespacedName ''ns'' ''gw3''),
          LogInfo ''Removed gateway from service watcher''] @
         ApiUpdate (deleted_gateway\<lparr> gw_Finalizers := [] \<rparr>) # []
   \<and> \<not> ContainsFinalizer (deleted_gateway\<lparr> gw_Finalizers := [] \<rparr>) gatewayFinalizer
   \<and> deleted_gateway\<lparr> gw_Finalizers := [] \<rparr> = RemoveFinalizer deleted_gateway gatewayFinalizer
   \<and> ServerStopped (NamespacedName ''ns'' ''gw3'')
        \<in> set (cleanup_events (example_env 7 []) (NamespacedName ''ns'' ''gw3'') example_world)
   \<and> GatewayUntracked (NamespacedName ''ns'' ''gw3'')
        \<in> set (cleanup_events (example_env 7 []) (NamespacedName ''ns'' ''gw3'') example_world)
   \<and> MCPServers (snd (GatewayReconciler_Reconcile (example_env 7 [])
        (NamespacedName ''ns'' ''gw3'') example_world)) (NamespacedName ''ns'' ''gw3'') = None
   \<and> NamespacedName ''ns'' ''gw3''
        \<notin> sw_gateways (snd (GatewayReconciler_Reconcile (example_env 7 [])
              (NamespacedName ''ns'' ''gw3'') example_world))"
proof -
  let ?env = "example_env 7 []"
  let ?k = "NamespacedName ''ns'' ''gw3''"
  let ?run = "GatewayReconciler_Reconcile ?env ?k example_world"
  let ?gr = "deleted_gateway\<lparr> gw_Finalizers := [] \<rparr>"
  let ?pre = "[LogInfo ''Handling deletion of Gateway'',
          LogInfo ''Cleaning up resources for gateway'',
          ServerStopped ?k, ServerDiscarded ?k, GatewayUntracked ?k,
          LogInfo ''Removed gateway from service watcher'']"
  have run: "?run = (fst ?run, snd ?run)" by simp
  have del: "gw_DeletionTimestamp deleted_gateway \<noteq> None"
    by (simp add: deleted_gateway_facts)
  have srv: "MCPServers example_world ?k \<noteq> None" by (simp add: example_world_def)
  have tr: "trace (snd ?run) = trace example_world @ ?pre @ ApiUpdate ?gr # []"
    using example_deletion_trace by (simp add: example_world_def)
  have nf: "\<not> ContainsFinalizer ?gr gatewayFinalizer"
    by (simp add: ContainsFinalizer_def)
  note t = finalizer_removed_only_after_cleanup
             [OF run, of deleted_gateway ?pre ?gr "[]"]
  have A: "ServerStopped ?k \<in> set (cleanup_events ?env ?k example_world)
           \<and> GatewayUntracked ?k \<in> set (cleanup_events ?env ?k example_world)
           \<and> MCPServers (snd ?run) ?k = None \<and> ?k \<notin> sw_gateways (snd ?run)"
    using conjunct1 [OF t] example_get_gw3 del srv deleted_gateway_facts(2) by simp
  have B: "\<exists>deleted. client_Get_Gateway ?env ?k example_world = Inr deleted
               \<and> ?gr = RemoveFinalizer deleted gatewayFinalizer"
    using conjunct2 [OF t] tr nf by blast
  have C: "?gr = RemoveFinalizer deleted_gateway gatewayFinalizer"
    using B example_get_gw3 by simp
  show ?thesis using example_get_gw3 del srv tr nf A C by blast
qed

subsection \<open>The Gateway reconciler: the successful path\<close>

lemma find_holds: "find P xs = Some x \<Longrightarrow> P x"
  by (induction xs) (auto split: if_splits)

lemma find_snoc:
  "find P (ys @ [y]) = (case find P ys of Some z \<Rightarrow> Some z | None \<Rightarrow> if P y then Some y else None)"
  by (induction ys) simp_all

lemma fold_cond_upd_lookup:
  "fold (\<lambda>x m. if p x then m(f x \<mapsto> g x) else m) xs m k =
     (case find (\<lambda>x. p x \<and> f x = k) (rev xs) of Some x \<Rightarrow> Some (g x) | None \<Rightarrow> m k)"
proof (induction xs arbitrary: m)
  case Nil
  show ?case by simp
next
  case (Cons x xs)
  let ?m' = "if p x then m(f x \<mapsto> g x) else m"
  have ih: "fold (\<lambda>x m. if p x then m(f x \<mapsto> g x) else m) xs ?m' k =
     (case find (\<lambda>x. p x \<and> f x = k) (rev xs) of Some x \<Rightarrow> Some (g x) | None \<Rightarrow> ?m' k)"
    by (rule Cons.IH)
  have fs: "find (\<lambda>x. p x \<and> f x = k) (rev (x # xs)) =
      (case find (\<lambda>x. p x \<and> f x = k) (rev xs) of Some z \<Rightarrow> Some z
       | None \<Rightarrow> if p x \<and> f x = k then Some x else None)"
    using find_snoc [of "\<lambda>x. p x \<and> f x = k" "rev xs" x] by simp
  show ?case
  proof (cases "find (\<lambda>x. p x \<and> f x = k) (rev xs)")
    case None
    then show ?thesis unfolding fs using ih by simp
  next
    case (Some z)
    then show ?thesis unfolding fs using ih by simp
  qed
qed

lemma registerMatching_registry:
  "MCPRegistry (registerMatching env svc w) =
     (if accepted svc
      then (MCPRegistry w)\<lparr> services := (services (MCPRegistry w))(svc_key svc \<mapsto> entry_for env svc) \<rparr>
      else MCPRegistry w)"
proof (cases "svc_Annotations svc = None")
  case True
  then show ?thesis
    by (simp add: registerMatching_def accepted_def RegisterService_def Let_def)
next
  case False
  then show ?thesis
    by (simp add: registerMatching_def accepted_def Let_def RegisterService_ok entry_for_def role_of_def)
qed

lemma registerMatching_fields:
  "api_gateways (registerMatching env svc w) = api_gateways w"
  "api_services (registerMatching env svc w) = api_services w"
  "sw_gateways (registerMatching env svc w) = sw_gateways w"
  "MCPServers (registerMatching env svc w) = MCPServers w"
  by (simp_all add: registerMatching_def Let_def split: prod.split sum.split)

lemma fold_registerMatching_fields:
  "api_gateways (fold (registerMatching env) svcs w) = api_gateways w"
  "api_services (fold (registerMatching env) svcs w) = api_services w"
  "sw_gateways (fold (registerMatching env) svcs w) = sw_gateways w"
  "MCPServers (fold (registerMatching env) svcs w) = MCPServers w"
  by (induction svcs arbitrary: w) (simp_all add: registerMatching_fields)

lemma fold_registerMatching_services:
  "services (MCPRegistry (fold (registerMatching env) svcs w)) =
     fold (\<lambda>s m. if accepted s then m(svc_key s \<mapsto> entry_for env s) else m) svcs
       (services (MCPRegistry w))"
proof (induction svcs arbitrary: w)
  case Nil
  show ?case by simp
next
  case (Cons s svcs)
  let ?F = "\<lambda>s m. if accepted s then m(svc_key s \<mapsto> entry_for env s) else m"
  have step: "services (MCPRegistry (registerMatching env s w)) = ?F s (services (MCPRegistry w))"
    by (simp add: registerMatching_registry)
  have "services (MCPRegistry (fold (registerMatching env) (s # svcs) w))
          = services (MCPRegistry (fold (registerMatching env) svcs (registerMatching env s w)))"
    by simp
  also have "\<dots> = fold ?F svcs (services (MCPRegistry (registerMatching env s w)))"
    by (rule Cons.IH)
  also have "\<dots> = fold ?F svcs (?F s (services (MCPRegistry w)))"
    by (simp only: step)
  also have "\<dots> = fold ?F (s # svcs) (services (MCPRegistry w))"
    by simp
  finally show ?case .
qed

lemma fold_registerMatching_registry_only:
  "MCPRegistry w1 = MCPRegistry w2 \<Longrightarrow>
   MCPRegistry (fold (registerMatching env) svcs w1) = MCPRegistry (fold (registerMatching env) svcs w2)"
proof (induction svcs arbitrary: w1 w2)
  case Nil
  then show ?case by simp
next
  case (Cons s svcs)
  have "MCPRegistry (registerMatching env s w1) = MCPRegistry (registerMatching env s w2)"
    using Cons.prems by (simp add: registerMatching_registry)
  then have "MCPRegistry (fold (registerMatching env) svcs (registerMatching env s w1))
           = MCPRegistry (fold (registerMatching env) svcs (registerMatching env s w2))"
    by (rule Cons.IH)
  then show ?case by simp
qed

lemma ensure_no_error: "fst (ensureMCPServer g w) = None"
proof -
  have "srv_started (Configure g s) = srv_started s" for s
    by (simp add: Configure_def)
  then show ?thesis
    by (simp add: ensureMCPServer_def Let_def IsRunning_def Start_def split: option.split)
qed

lemma ensure_fields:
  "api_gateways (snd (ensureMCPServer g w)) = api_gateways w"
  "api_services (snd (ensureMCPServer g w)) = api_services w"
  "MCPRegistry (snd (ensureMCPServer g w)) = MCPRegistry w"
  by (simp_all add: ensureMCPServer_def Let_def split: prod.split option.split)

lemma AddGateway_fields:
  "api_gateways (AddGateway g w) = api_gateways w"
  "api_services (AddGateway g w) = api_services w"
  "MCPRegistry (AddGateway g w) = MCPRegistry w"
  by (simp_all add: AddGateway_def)

lemma final_gateway_key: "gw_key (final_gateway env g r) = gw_key g"
  by (simp add: final_gateway_def Let_def gw_key_def updateGatewayCondition_def UpdateRegistryStatus_def)

lemma selects_eq:
  "env_selector env (spec_ServiceSelector (gw_Spec g)) = Inr selector \<Longrightarrow>
   selects env g = (\<lambda>svc. selector (svc_Labels svc))"
  by (rule ext) (simp add: selects_def)

lemma client_Status_Update_ok:
  assumes "env_fault env (UpdateGatewayStatus (gw_key G)) = None"
    and "api_gateways w (gw_key G) = Some stored"
  shows "client_Status_Update env G w =
           (None, (emit (ApiStatusUpdate G) w)\<lparr> api_gateways :=
                     (api_gateways w)(gw_key G \<mapsto> stored\<lparr> gw_Status := gw_Status G \<rparr>) \<rparr>)"
  using assms by (simp add: client_Status_Update_def Let_def)

lemma Reconcile_success:
  assumes calm: "calm env req"
    and live: "live_gateway w req g"
    and sel: "env_selector env (spec_ServiceSelector (gw_Spec g)) = Inr selector"
  shows "fst (GatewayReconciler_Reconcile env req w) = (\<lparr> Requeue = False, RequeueAfter = 300 \<rparr>, None)"
    and "api_gateways (snd (GatewayReconciler_Reconcile env req w))
           = (api_gateways w)(req \<mapsto>
                g\<lparr> gw_Status := gw_Status (final_gateway env g (registry_after env g w)) \<rparr>)"
    and "MCPRegistry (snd (GatewayReconciler_Reconcile env req w)) = registry_after env g w"
    and "api_services (snd (GatewayReconciler_Reconcile env req w)) = api_services w"
proof -
  have st: "api_gateways w req = Some g" and key: "gw_key g = req"
    and nodel: "gw_DeletionTimestamp g = None" and fin: "ContainsFinalizer g gatewayFinalizer"
    using live by (simp_all add: live_gateway_def)
  have f1: "env_fault env (GetGateway req) = None" and f2: "env_fault env ListServiceObjects = None"
    and f3: "env_fault env (UpdateGatewayStatus req) = None"
    using calm by (simp_all add: calm_def)
  have get: "client_Get_Gateway env req w = Inr g"
    by (simp add: client_Get_Gateway_def f1 st)
  obtain w1 where ens: "ensureMCPServer g w = (None, w1)"
    using ensure_no_error [of g w] by (cases "ensureMCPServer g w") simp
  have w1: "api_gateways w1 = api_gateways w" "api_services w1 = api_services w"
    "MCPRegistry w1 = MCPRegistry w"
    using ensure_fields [of g w] ens by simp_all
  let ?w2 = "AddGateway g w1"
  have w2: "api_gateways ?w2 = api_gateways w" "api_services ?w2 = api_services w"
    "MCPRegistry ?w2 = MCPRegistry w"
    using w1 by (simp_all add: AddGateway_fields)
  let ?svcs = "filter (selects env g) (api_services w)"
  have gm: "GetMatchingServices env g ?w2 = Inr ?svcs"
    by (simp add: GetMatchingServices_def sel f2 w2(2) selects_eq [OF sel])
  let ?w3 = "fold (registerMatching env) ?svcs ?w2"
  have w3: "api_gateways ?w3 = api_gateways w" "api_services ?w3 = api_services w"
    by (simp_all add: fold_registerMatching_fields w2)
  have r3: "MCPRegistry ?w3 = registry_after env g w"
    unfolding registry_after_def
    by (rule fold_registerMatching_registry_only) (rule w2(3))
  let ?G = "final_gateway env g (registry_after env g w)"
  have kG: "gw_key ?G = req" by (simp add: final_gateway_key key)
  have su: "client_Status_Update env ?G ?w3 =
           (None, (emit (ApiStatusUpdate ?G) ?w3)\<lparr> api_gateways :=
                     (api_gateways ?w3)(gw_key ?G \<mapsto> g\<lparr> gw_Status := gw_Status ?G \<rparr>) \<rparr>)"
    by (rule client_Status_Update_ok) (simp_all add: kG f3 w3 st)
  have run: "GatewayReconciler_Reconcile env req w =
          ((\<lparr> Requeue = False, RequeueAfter = 300 \<rparr>, None),
           (emit (ApiStatusUpdate ?G) ?w3)\<lparr> api_gateways :=
                     (api_gateways ?w3)(gw_key ?G \<mapsto> g\<lparr> gw_Status := gw_Status ?G \<rparr>) \<rparr>)"
    unfolding GatewayReconciler_Reconcile_def get
    using nodel fin by (simp add: ens Let_def gm publishStatus_eq r3 su)
  show "fst (GatewayReconciler_Reconcile env req w) = (\<lparr> Requeue = False, RequeueAfter = 300 \<rparr>, None)"
    unfolding run by simp
  show "api_gateways (snd (GatewayReconciler_Reconcile env req w))
           = (api_gateways w)(req \<mapsto> g\<lparr> gw_Status := gw_Status ?G \<rparr>)"
    unfolding run by (simp add: w3 kG)
  show "MCPRegistry (snd (GatewayReconciler_Reconcile env req w)) = registry_after env g w"
    unfolding run by (simp add: r3)
  show "api_services (snd (GatewayReconciler_Reconcile env req w)) = api_services w"
    unfolding run by (simp add: w3)
qed

lemma settled_update: "settled new (update_conditions new cs)"
  by (induction cs) simp_all

lemma settled_other:
  "cond_Type a \<noteq> cond_Type new \<Longrightarrow> settled new cs \<Longrightarrow> settled new (update_conditions a cs)"
  by (induction cs) auto

lemma settled_noop: "settled new cs \<Longrightarrow> update_conditions new cs = cs"
  by (induction cs) (auto split: if_splits)

lemma settled_cong:
  "cond_Type n' = cond_Type n \<Longrightarrow> cond_Status n' = cond_Status n \<Longrightarrow>
   cond_Reason n' = cond_Reason n \<Longrightarrow> cond_Message n' = cond_Message n \<Longrightarrow>
   settled n' cs = settled n cs"
  by (induction cs) simp_all

lemma conditions_idempotent:
  assumes ty: "cond_Type a \<noteq> cond_Type n"
    and n: "cond_Type n' = cond_Type n" "cond_Status n' = cond_Status n"
           "cond_Reason n' = cond_Reason n" "cond_Message n' = cond_Message n"
    and a: "cond_Type a' = cond_Type a" "cond_Status a' = cond_Status a"
           "cond_Reason a' = cond_Reason a" "cond_Message a' = cond_Message a"
  shows "update_conditions a' (update_conditions n' (update_conditions a (update_conditions n cs)))
           = update_conditions a (update_conditions n cs)"
proof -
  let ?cs1 = "update_conditions a (update_conditions n cs)"
  have "settled n ?cs1" using settled_other [OF ty settled_update] .
  then have "settled n' ?cs1" using settled_cong [OF n] by simp
  then have 1: "update_conditions n' ?cs1 = ?cs1" by (rule settled_noop)
  have "settled a ?cs1" by (rule settled_update)
  then have "settled a' ?cs1" using settled_cong [OF a] by simp
  then have 2: "update_conditions a' ?cs1 = ?cs1" by (rule settled_noop)
  show ?thesis unfolding 1 2 ..
qed

lemma final_gateway_status:
  "st_MCPServices (gw_Status (final_gateway env g r))
     = map service_info (range_values (services r) (env_range_services env (gw_key g)))"
  "st_Address (gw_Status (final_gateway env g r)) = '':'' @ fmt_d (spec_MCPPort (gw_Spec g))"
  "st_Conditions (gw_Status (final_gateway env g r))
     = update_conditions
         (new_condition (env_now env (StampCondition conditionTypeAvailable)) g
            conditionTypeAvailable ConditionTrue reasonConfigured ''Gateway is available'')
         (update_conditions
            (new_condition (env_now env (StampCondition conditionTypeReady)) g
               conditionTypeReady ConditionTrue reasonReady
               (ready_message (length (range_values (services r)
                                         (env_range_services env (gw_key g))))))
            (st_Conditions (gw_Status g)))"
  by (simp_all add: final_gateway_def Let_def updateGatewayCondition_def UpdateRegistryStatus_def
      new_condition_def gw_key_def)

lemma registry_after_services:
  "services (registry_after env g w) =
     fold (\<lambda>s m. if accepted s then m(svc_key s \<mapsto> entry_for env s) else m)
       (filter (selects env g) (api_services w)) (services (MCPRegistry w))"
  unfolding registry_after_def by (rule fold_registerMatching_services)

lemma registry_after_lookup:
  "services (registry_after env g w) k =
     (case find (\<lambda>s. accepted s \<and> svc_key s = k) (rev (filter (selects env g) (api_services w))) of
        Some s \<Rightarrow> Some (entry_for env s)
      | None \<Rightarrow> services (MCPRegistry w) k)"
  unfolding registry_after_services by (rule fold_cond_upd_lookup)

lemma entry_for_info:
  "untimed (service_info (entry_for env1 s)) = untimed (service_info (entry_for env2 s))"
  by (simp add: untimed_def service_info_def entry_for_def registered_def)

lemma entry_for_key:
  "NamespacedName (mcp_Namespace (entry_for env s)) (mcp_Name (entry_for env s)) = svc_key s"
  by (simp add: entry_for_def registered_def svc_key_def)

lemma keyed_registry_after:
  assumes "keyed (MCPRegistry w)"
  shows "keyed (registry_after env g w)"
  unfolding keyed_def
proof (intro allI impI)
  fix k m
  assume a: "services (registry_after env g w) k = Some m"
  let ?f = "find (\<lambda>s. accepted s \<and> svc_key s = k) (rev (filter (selects env g) (api_services w)))"
  show "k = NamespacedName (mcp_Namespace m) (mcp_Name m)"
  proof (cases ?f)
    case None
    then have "services (MCPRegistry w) k = Some m"
      using a by (simp add: registry_after_lookup)
    then show ?thesis using assms unfolding keyed_def by blast
  next
    case (Some s)
    then have m: "m = entry_for env s" using a by (simp add: registry_after_lookup)
    have "svc_key s = k" using find_holds [OF Some] by simp
    then show ?thesis using m entry_for_key [of env s] by simp
  qed
qed

lemma image_ran_cong:
  assumes "\<And>k. (m1 k = None \<longleftrightarrow> m2 k = None)"
    and "\<And>k a b. m1 k = Some a \<Longrightarrow> m2 k = Some b \<Longrightarrow> h a = h b"
  shows "h ` ran m1 = h ` ran m2"
proof (intro set_eqI iffI)
  fix y assume "y \<in> h ` ran m1"
  then obtain a k where a: "m1 k = Some a" "y = h a" unfolding ran_def by blast
  then obtain b where b: "m2 k = Some b" using assms(1) [of k] by (cases "m2 k") simp_all
  then have "h a = h b" using assms(2) a(1) by blast
  then have "y = h b" using a(2) by simp
  moreover have "b \<in> ran m2" using b by (rule ranI)
  ultimately show "y \<in> h ` ran m2" by (rule image_eqI)
next
  fix y assume "y \<in> h ` ran m2"
  then obtain b k where b: "m2 k = Some b" "y = h b" unfolding ran_def by blast
  then obtain a where a: "m1 k = Some a" using assms(1) [of k] by (cases "m1 k") simp_all
  then have "h a = h b" using assms(2) b(1) by blast
  then have "y = h a" using b(2) by simp
  moreover have "a \<in> ran m1" using a by (rule ranI)
  ultimately show "y \<in> h ` ran m1" by (rule image_eqI)
qed

lemma range_values_map:
  "set ks \<subseteq> dom m \<Longrightarrow> range_values m ks = map (\<lambda>k. the (m k)) ks"
  unfolding range_values_def
  by (induction ks) (auto simp: List.map_filter_simps)

lemma projected_keys:
  assumes k: "keyed r" and ro: "range_order (services r) ks"
  shows "map info_key (map service_info (range_values (services r) ks)) = ks"
proof -
  have sub: "set ks \<subseteq> dom (services r)" using ro by (simp add: range_order_def)
  have "info_key (service_info (the (services r k))) = k" if "k \<in> set ks" for k
  proof -
    have "k \<in> dom (services r)" using sub that by (rule subsetD)
    then obtain m where m: "services r k = Some m" unfolding dom_def by blast
    then have "k = NamespacedName (mcp_Namespace m) (mcp_Name m)"
      using k unfolding keyed_def by blast
    then show ?thesis using m by (simp add: info_key_def service_info_def)
  qed
  then have "map (\<lambda>k. info_key (service_info (the (services r k)))) ks = ks"
    by (induction ks) simp_all
  then show ?thesis by (simp add: range_values_map [OF sub] comp_def)
qed

lemma projected_set:
  assumes ro: "range_order (services r) ks"
  shows "set (map untimed (map service_info (range_values (services r) ks)))
           = (\<lambda>m. untimed (service_info m)) ` ran (services r)"
  using range_values_set [OF ro] by (simp add: image_image)

lemma example_calm: "calm (example_env t ks) req"
  by (simp add: calm_def example_env_def)

lemma example_selector:
  "env_selector (example_env t ks) sel =
     Inr (\<lambda>labels. list_all (\<lambda>kv. go_lookup labels (fst kv) = Some (snd kv)) (sel_MatchLabels sel))"
  by (simp add: example_env_def matchLabels_selector_def)

lemma example_selects:
  "selects (example_env t ks) example_gateway service_agent"
  "\<not> selects (example_env t ks) example_gateway service_tool"
  "\<not> selects (example_env t ks) example_gateway service_unannotated"
  "\<not> selects (example_env t ks) other_gateway service_agent"
  "selects (example_env t ks) other_gateway service_tool"
  "\<not> selects (example_env t ks) other_gateway service_unannotated"
  by (simp_all add: selects_def example_selector example_gateway_def other_gateway_def
      service_agent_def service_tool_def service_unannotated_def go_lookup_def)

lemma example_matching:
  "filter (selects (example_env t ks) example_gateway) (api_services example_world) = [service_agent]"
  "filter (selects (example_env t ks) other_gateway) (api_services example_world) = [service_tool]"
  by (simp_all add: example_world_def example_selects)

lemma example_accepted: "accepted service_agent" "accepted service_tool"
  by (simp_all add: accepted_def service_agent_def service_tool_def go_index_def MCPEnabledLabel_def)

lemma example_svc_keys:
  "svc_key service_agent = NamespacedName ''ns'' ''s1''"
  "svc_key service_tool = NamespacedName ''ns'' ''s2''"
  by (simp_all add: svc_key_def service_agent_def service_tool_def)

lemma example_entries:
  "service_info (entry_for (example_env t ks) service_agent)
     = \<lparr> info_Name = ''s1'', info_Namespace = ''ns'', info_Type = ''agent'',
         info_Endpoint = ''/mcp/ns/s1'', info_Status = ''Available'', info_LastUpdated = t \<rparr>"
  "service_info (entry_for (example_env t ks) service_tool)
     = \<lparr> info_Name = ''s2'', info_Namespace = ''ns'', info_Type = ''tool'',
         info_Endpoint = ''/mcp/ns/s2'', info_Status = ''Pending'', info_LastUpdated = t \<rparr>"
  by (simp_all add: service_info_def entry_for_def registered_def role_of_def example_env_def
      service_agent_def service_tool_def go_index_def go_lookup_def MCPTypeAnnotation_def
      ServiceTypeAgent_def ServiceTypeTool_def default_endpoint_def corev1_ServiceTypeClusterIP_def
      ServiceStatusAvailable_def ServiceStatusPending_def)

lemma example_live:
  "live_gateway example_world (NamespacedName ''ns'' ''gw'') example_gateway"
  "live_gateway example_world (NamespacedName ''ns'' ''gw2'') other_gateway"
  by (simp_all add: live_gateway_def example_world_def example_gateway_def other_gateway_def
      gw_key_def ContainsFinalizer_def gatewayFinalizer_def)

lemma example_keyed: "keyed (MCPRegistry example_world)"
  by (simp add: keyed_def example_world_def NewRegistry_def)

lemma example_registry_empty: "services (MCPRegistry example_world) = Map.empty"
  by (simp add: example_world_def NewRegistry_def)

lemma selects_status [simp]: "selects env (g\<lparr> gw_Status := x \<rparr>) = selects env g"
  by (rule ext) (simp add: selects_def)

lemma Reconcile_success_live:
  assumes "calm env req" "live_gateway w req g"
    "env_selector env (spec_ServiceSelector (gw_Spec g)) = Inr selector"
  shows "live_gateway (snd (GatewayReconciler_Reconcile env req w)) req
           (g\<lparr> gw_Status := gw_Status (final_gateway env g (registry_after env g w)) \<rparr>)"
  using assms(2) Reconcile_success(2) [OF assms]
  by (simp add: live_gateway_def gw_key_def ContainsFinalizer_def)

lemma Reconcile_success_services:
  assumes "calm env req" "live_gateway w req g"
    "env_selector env (spec_ServiceSelector (gw_Spec g)) = Inr selector"
  shows "services (MCPRegistry (snd (GatewayReconciler_Reconcile env req w))) =
     fold (\<lambda>s m. if accepted s then m(svc_key s \<mapsto> entry_for env s) else m)
       (filter (selects env g) (api_services w)) (services (MCPRegistry w))"
  unfolding Reconcile_success(3) [OF assms] by (rule registry_after_services)

lemma Reconcile_success_list:
  assumes "calm env req" "live_gateway w req g"
    "env_selector env (spec_ServiceSelector (gw_Spec g)) = Inr selector"
  shows "st_MCPServices (gw_Status (the (api_gateways (snd (GatewayReconciler_Reconcile env req w)) req)))
     = map service_info (range_values
         (services (MCPRegistry (snd (GatewayReconciler_Reconcile env req w))))
         (env_range_services env req))"
proof -
  have "gw_key g = req" using assms(2) by (simp add: live_gateway_def)
  then show ?thesis
    unfolding Reconcile_success(2) [OF assms] Reconcile_success(3) [OF assms]
    by (simp add: final_gateway_status(1))
qed

lemma example_range [simp]: "env_range_services (example_env t ks) key = ks"
  by (simp add: example_env_def)

lemma first_run_services:
  "services (MCPRegistry (snd (GatewayReconciler_Reconcile (example_env t ks)
       (NamespacedName ''ns'' ''gw'') example_world)))
     = [NamespacedName ''ns'' ''s1'' \<mapsto> entry_for (example_env t ks) service_agent]"
  unfolding Reconcile_success_services [OF example_calm example_live(1) example_selector]
  by (simp add: example_matching example_accepted example_svc_keys example_registry_empty)

lemma first_run_list:
  "st_MCPServices (gw_Status (the (api_gateways (snd (GatewayReconciler_Reconcile
       (example_env t [NamespacedName ''ns'' ''s1'']) (NamespacedName ''ns'' ''gw'') example_world))
       (NamespacedName ''ns'' ''gw''))))
     = [\<lparr> info_Name = ''s1'', info_Namespace = ''ns'', info_Type = ''agent'',
          info_Endpoint = ''/mcp/ns/s1'', info_Status = ''Available'', info_LastUpdated = t \<rparr>]"
  unfolding Reconcile_success_list [OF example_calm example_live(1) example_selector]
    first_run_services
  by (simp add: range_values_def List.map_filter_simps example_entries)

lemma first_run_world:
  "api_services (snd (GatewayReconciler_Reconcile (example_env t ks)
       (NamespacedName ''ns'' ''gw'') example_world)) = api_services example_world"
  by (rule Reconcile_success(4) [OF example_calm example_live(1) example_selector])

lemma second_run_services:
  "services (MCPRegistry (snd (GatewayReconciler_Reconcile (example_env t' ks')
       (NamespacedName ''ns'' ''gw'')
       (snd (GatewayReconciler_Reconcile (example_env t ks)
               (NamespacedName ''ns'' ''gw'') example_world)))))
     = [NamespacedName ''ns'' ''s1'' \<mapsto> entry_for (example_env t' ks') service_agent]"
proof -
  note live1 = Reconcile_success_live [OF example_calm example_live(1) example_selector, of t ks]
  show ?thesis
    unfolding Reconcile_success_services [OF example_calm live1 example_selector]
    by (simp add: first_run_world first_run_services example_matching example_accepted
        example_svc_keys)
qed

lemma second_run_list:
  "st_MCPServices (gw_Status (the (api_gateways (snd (GatewayReconciler_Reconcile
       (example_env t' [NamespacedName ''ns'' ''s1'']) (NamespacedName ''ns'' ''gw'')
       (snd (GatewayReconciler_Reconcile (example_env t ks)
               (NamespacedName ''ns'' ''gw'') example_world))))
       (NamespacedName ''ns'' ''gw''))))
     = [\<lparr> info_Name = ''s1'', info_Namespace = ''ns'', info_Type = ''agent'',
          info_Endpoint = ''/mcp/ns/s1'', info_Status = ''Available'', info_LastUpdated = t' \<rparr>]"
proof -
  note live1 = Reconcile_success_live [OF example_calm example_live(1) example_selector, of t ks]
  show ?thesis
    unfolding Reconcile_success_list [OF example_calm live1 example_selector] second_run_services
    by (simp add: range_values_def List.map_filter_simps example_entries)
qed

subsection \<open>What the published service list holds\<close>

lemma selected_is_registered:
  assumes "x \<in> set xs" "p x"
  shows "f x \<in> dom (fold (\<lambda>x m. if p x then m(f x \<mapsto> g x) else m) xs m)"
proof -
  have "find (\<lambda>y. p y \<and> f y = f x) (rev xs) \<noteq> None"
    unfolding find_None_iff using assms by auto
  then show ?thesis
    unfolding dom_def fold_cond_upd_lookup by (auto split: option.split)
qed

lemma registered_stay:
  "dom m \<subseteq> dom (fold (\<lambda>x m. if p x then m(f x \<mapsto> g x) else m) xs m)"
  unfolding dom_def fold_cond_upd_lookup by (auto split: option.split)

text \<open>
  Claim C2, amended: at status-publish time the list written onto the Gateway is the
  projection of the entire registry, one entry for every registration: the
  registrations of the accepted services that this Gateway's selector lists, and
  every registration that was in the registry before, whatever selector or service
  event brought it there.
\<close>

theorem status_lists_whole_registry:
  assumes calm: "calm env req" and live: "live_gateway w req g"
    and sel: "env_selector env (spec_ServiceSelector (gw_Spec g)) = Inr selector"
    and run: "GatewayReconciler_Reconcile env req w = (res, w')"
    and ro: "range_order (services (MCPRegistry w')) (env_range_services env req)"
  shows "\<exists>stored. api_gateways w' req = Some stored \<and> snd res = None
      \<and> st_MCPServices (gw_Status stored)
          = st_MCPServices (gw_Status
              (UpdateRegistryStatus (env_range_services env req) (MCPRegistry w') g))
      \<and> set (st_MCPServices (gw_Status stored)) = service_info ` ran (services (MCPRegistry w'))
      \<and> length (st_MCPServices (gw_Status stored)) = card (dom (services (MCPRegistry w')))
      \<and> dom (services (MCPRegistry w)) \<subseteq> dom (services (MCPRegistry w'))
      \<and> (\<forall>svc\<in>set (api_services w). selects env g svc \<and> accepted svc \<longrightarrow>
            svc_key svc \<in> dom (services (MCPRegistry w')))"
proof -
  let ?ks = "env_range_services env req"
  let ?stored = "g\<lparr> gw_Status := gw_Status (final_gateway env g (registry_after env g w)) \<rparr>"
  have w': "w' = snd (GatewayReconciler_Reconcile env req w)"
    and res: "res = fst (GatewayReconciler_Reconcile env req w)"
    using run by simp_all
  note S = Reconcile_success [OF calm live sel]
  have reg: "MCPRegistry w' = registry_after env g w" unfolding w' by (rule S(3))
  have 1: "api_gateways w' req = Some ?stored" unfolding w' S(2) by simp
  have 2: "snd res = None" unfolding res S(1) by simp
  have the_stored: "the (api_gateways w' req) = ?stored" using 1 by simp
  have list: "st_MCPServices (gw_Status ?stored)
                = map service_info (range_values (services (MCPRegistry w')) ?ks)"
    using Reconcile_success_list [OF calm live sel] the_stored unfolding w' by simp
  have 3: "st_MCPServices (gw_Status ?stored)
          = st_MCPServices (gw_Status (UpdateRegistryStatus ?ks (MCPRegistry w') g))"
    unfolding list by (simp add: UpdateRegistryStatus_def)
  have 4: "set (st_MCPServices (gw_Status ?stored)) = service_info ` ran (services (MCPRegistry w'))"
    unfolding list using range_values_set [OF ro] by simp
  have 5: "length (st_MCPServices (gw_Status ?stored)) = card (dom (services (MCPRegistry w')))"
    unfolding list using range_values_length [OF ro] by simp
  have sv: "services (MCPRegistry w') =
     fold (\<lambda>s m. if accepted s then m(svc_key s \<mapsto> entry_for env s) else m)
       (filter (selects env g) (api_services w)) (services (MCPRegistry w))"
    unfolding reg by (rule registry_after_services)
  have 6: "dom (services (MCPRegistry w)) \<subseteq> dom (services (MCPRegistry w'))"
    unfolding sv by (rule registered_stay)
  have 7: "svc_key svc \<in> dom (services (MCPRegistry w'))"
    if "svc \<in> set (api_services w)" "selects env g svc \<and> accepted svc" for svc
    unfolding sv by (rule selected_is_registered) (use that in simp_all)
  have "api_gateways w' req = Some ?stored \<and> snd res = None
      \<and> st_MCPServices (gw_Status ?stored)
          = st_MCPServices (gw_Status (UpdateRegistryStatus ?ks (MCPRegistry w') g))
      \<and> set (st_MCPServices (gw_Status ?stored)) = service_info ` ran (services (MCPRegistry w'))
      \<and> length (st_MCPServices (gw_Status ?stored)) = card (dom (services (MCPRegistry w')))
      \<and> dom (services (MCPRegistry w)) \<subseteq> dom (services (MCPRegistry w'))
      \<and> (\<forall>svc\<in>set (api_services w). selects env g svc \<and> accepted svc \<longrightarrow>
            svc_key svc \<in> dom (services (MCPRegistry w')))"
    using 1 2 3 4 5 6 7 by blast
  then show ?thesis by (rule exI)
qed

lemma other_run_services:
  "services (MCPRegistry (snd (GatewayReconciler_Reconcile (example_env t ks)
       (NamespacedName ''ns'' ''gw2'') example_world)))
     = [NamespacedName ''ns'' ''s2'' \<mapsto> entry_for (example_env t ks) service_tool]"
  unfolding Reconcile_success_services [OF example_calm example_live(2) example_selector]
  by (simp add: example_matching example_accepted example_svc_keys example_registry_empty)

lemma other_run_world:
  "api_services (snd (GatewayReconciler_Reconcile (example_env t ks)
       (NamespacedName ''ns'' ''gw2'') example_world)) = api_services example_world"
  by (rule Reconcile_success(4) [OF example_calm example_live(2) example_selector])

lemma other_run_live:
  "live_gateway (snd (GatewayReconciler_Reconcile (example_env t ks)
       (NamespacedName ''ns'' ''gw2'') example_world)) (NamespacedName ''ns'' ''gw'') example_gateway"
  using example_live(1)
  unfolding live_gateway_def
    Reconcile_success(2) [OF example_calm example_live(2) example_selector]
  by simp

lemma both_run_services:
  "services (MCPRegistry (snd (GatewayReconciler_Reconcile (example_env t' ks')
       (NamespacedName ''ns'' ''gw'')
       (snd (GatewayReconciler_Reconcile (example_env t ks)
               (NamespacedName ''ns'' ''gw2'') example_world)))))
     = [NamespacedName ''ns'' ''s2'' \<mapsto> entry_for (example_env t ks) service_tool,
        NamespacedName ''ns'' ''s1'' \<mapsto> entry_for (example_env t' ks') service_agent]"
  unfolding Reconcile_success_services [OF example_calm other_run_live example_selector]
  by (simp add: other_run_world other_run_services example_matching example_accepted
      example_svc_keys)

lemma both_run_list:
  "st_MCPServices (gw_Status (the (api_gateways (snd (GatewayReconciler_Reconcile
       (example_env 8 [NamespacedName ''ns'' ''s1'', NamespacedName ''ns'' ''s2''])
       (NamespacedName ''ns'' ''gw'')
       (snd (GatewayReconciler_Reconcile (example_env 7 [NamespacedName ''ns'' ''s2''])
               (NamespacedName ''ns'' ''gw2'') example_world))))
       (NamespacedName ''ns'' ''gw''))))
     = [\<lparr> info_Name = ''s1'', info_Namespace = ''ns'', info_Type = ''agent'',
          info_Endpoint = ''/mcp/ns/s1'', info_Status = ''Available'', info_LastUpdated = 8 \<rparr>,
        \<lparr> info_Name = ''s2'', info_Namespace = ''ns'', info_Type = ''tool'',
          info_Endpoint = ''/mcp/ns/s2'', info_Status = ''Pending'', info_LastUpdated = 7 \<rparr>]"
  unfolding Reconcile_success_list [OF example_calm other_run_live example_selector]
    both_run_services
  by (simp add: range_values_def List.map_filter_simps example_entries)

text \<open>
  Claim C2, as stated: the list written onto a Gateway holds only registrations of
  services that match its selector. In the example cluster the second Gateway (selector
  app = b) is reconciled first and registers s2; then the first Gateway (selector
  app = a) is reconciled. Its selector does not select s2, and its published list
  holds s1 and s2.
\<close>

theorem status_lists_entry_of_other_gateway:
  "selects (example_env 7 [NamespacedName ''ns'' ''s2'']) other_gateway service_tool
   \<and> \<not> selects (example_env 8 [NamespacedName ''ns'' ''s1'', NamespacedName ''ns'' ''s2''])
          example_gateway service_tool
   \<and> svc_Name service_tool = ''s2'' \<and> svc_Namespace service_tool = ''ns''
   \<and> snd (fst (GatewayReconciler_Reconcile
         (example_env 8 [NamespacedName ''ns'' ''s1'', NamespacedName ''ns'' ''s2''])
         (NamespacedName ''ns'' ''gw'')
         (snd (GatewayReconciler_Reconcile (example_env 7 [NamespacedName ''ns'' ''s2''])
                 (NamespacedName ''ns'' ''gw2'') example_world)))) = None
   \<and> st_MCPServices (gw_Status (the (api_gateways (snd (GatewayReconciler_Reconcile
         (example_env 8 [NamespacedName ''ns'' ''s1'', NamespacedName ''ns'' ''s2''])
         (NamespacedName ''ns'' ''gw'')
         (snd (GatewayReconciler_Reconcile (example_env 7 [NamespacedName ''ns'' ''s2''])
                 (NamespacedName ''ns'' ''gw2'') example_world))))
         (NamespacedName ''ns'' ''gw''))))
       = [\<lparr> info_Name = ''s1'', info_Namespace = ''ns'', info_Type = ''agent'',
            info_Endpoint = ''/mcp/ns/s1'', info_Status = ''Available'', info_LastUpdated = 8 \<rparr>,
          \<lparr> info_Name = ''s2'', info_Namespace = ''ns'', info_Type = ''tool'',
            info_Endpoint = ''/mcp/ns/s2'', info_Status = ''Pending'', info_LastUpdated = 7 \<rparr>]"
proof -
  have n: "svc_Name service_tool = ''s2''" "svc_Namespace service_tool = ''ns''"
    by (simp_all add: service_tool_def)
  have ok: "snd (fst (GatewayReconciler_Reconcile
         (example_env 8 [NamespacedName ''ns'' ''s1'', NamespacedName ''ns'' ''s2''])
         (NamespacedName ''ns'' ''gw'')
         (snd (GatewayReconciler_Reconcile (example_env 7 [NamespacedName ''ns'' ''s2''])
                 (NamespacedName ''ns'' ''gw2'') example_world)))) = None"
    unfolding Reconcile_success(1) [OF example_calm other_run_live example_selector] by simp
  show ?thesis
    using example_selects(5) [of 7 "[NamespacedName ''ns'' ''s2'']"]
      example_selects(2) [of 8 "[NamespacedName ''ns'' ''s1'', NamespacedName ''ns'' ''s2'']"]
      n ok both_run_list
    by blast
qed

text \<open>The amended claim C2 on the second of these invocations.\<close>

theorem status_lists_whole_registry_witness:
  "calm (example_env 8 [NamespacedName ''ns'' ''s1'', NamespacedName ''ns'' ''s2''])
     (NamespacedName ''ns'' ''gw'')
   \<and> live_gateway (snd (GatewayReconciler_Reconcile (example_env 7 [NamespacedName ''ns'' ''s2''])
        (NamespacedName ''ns'' ''gw2'') example_world)) (NamespacedName ''ns'' ''gw'') example_gateway
   \<and> range_order (services (MCPRegistry (snd (GatewayReconciler_Reconcile
         (example_env 8 [NamespacedName ''ns'' ''s1'', NamespacedName ''ns'' ''s2''])
         (NamespacedName ''ns'' ''gw'')
         (snd (GatewayReconciler_Reconcile (example_env 7 [NamespacedName ''ns'' ''s2''])
                 (NamespacedName ''ns'' ''gw2'') example_world))))))
       [NamespacedName ''ns'' ''s1'', NamespacedName ''ns'' ''s2'']
   \<and> service_agent \<in> set (api_services (snd (GatewayReconciler_Reconcile
         (example_env 7 [NamespacedName ''ns'' ''s2''])
         (NamespacedName ''ns'' ''gw2'') example_world)))
   \<and> selects (example_env 8 [NamespacedName ''ns'' ''s1'', NamespacedName ''ns'' ''s2''])
         example_gateway service_agent
   \<and> accepted service_agent
   \<and> svc_key service_agent \<in> dom (services (MCPRegistry (snd (GatewayReconciler_Reconcile
         (example_env 8 [NamespacedName ''ns'' ''s1'', NamespacedName ''ns'' ''s2''])
         (NamespacedName ''ns'' ''gw'')
         (snd (GatewayReconciler_Reconcile (example_env 7 [NamespacedName ''ns'' ''s2''])
                 (NamespacedName ''ns'' ''gw2'') example_world))))))
   \<and> length (st_MCPServices (gw_Status (the (api_gateways (snd (GatewayReconciler_Reconcile
         (example_env 8 [NamespacedName ''ns'' ''s1'', NamespacedName ''ns'' ''s2''])
         (NamespacedName ''ns'' ''gw'')
         (snd (GatewayReconciler_Reconcile (example_env 7 [NamespacedName ''ns'' ''s2''])
                 (NamespacedName ''ns'' ''gw2'') example_world))))
         (NamespacedName ''ns'' ''gw'')))))
       = card (dom (services (MCPRegistry (snd (GatewayReconciler_Reconcile
         (example_env 8 [NamespacedName ''ns'' ''s1'', NamespacedName ''ns'' ''s2''])
         (NamespacedName ''ns'' ''gw'')
         (snd (GatewayReconciler_Reconcile (example_env 7 [NamespacedName ''ns'' ''s2''])
                 (NamespacedName ''ns'' ''gw2'') example_world)))))))"
proof -
  let ?kA = "NamespacedName ''ns'' ''gw''"
  let ?eA = "example_env 8 [NamespacedName ''ns'' ''s1'', NamespacedName ''ns'' ''s2'']"
  let ?WB = "snd (GatewayReconciler_Reconcile (example_env 7 [NamespacedName ''ns'' ''s2''])
                 (NamespacedName ''ns'' ''gw2'') example_world)"
  let ?RA = "GatewayReconciler_Reconcile ?eA ?kA ?WB"
  have run: "?RA = (fst ?RA, snd ?RA)" by simp
  have ro: "range_order (services (MCPRegistry (snd ?RA))) (env_range_services ?eA ?kA)"
    unfolding both_run_services by (auto simp: range_order_def)
  have mem: "service_agent \<in> set (api_services ?WB)"
    unfolding other_run_world by (simp add: example_world_def)
  note t = status_lists_whole_registry [OF example_calm other_run_live example_selector run ro]
  from t obtain stored where st: "api_gateways (snd ?RA) ?kA = Some stored"
      "length (st_MCPServices (gw_Status stored)) = card (dom (services (MCPRegistry (snd ?RA))))"
      "\<forall>svc\<in>set (api_services ?WB). selects ?eA example_gateway svc \<and> accepted svc \<longrightarrow>
            svc_key svc \<in> dom (services (MCPRegistry (snd ?RA)))"
    by blast
  have len: "length (st_MCPServices (gw_Status (the (api_gateways (snd ?RA) ?kA))))
               = card (dom (services (MCPRegistry (snd ?RA))))"
    using st(1,2) by simp
  have reg: "svc_key service_agent \<in> dom (services (MCPRegistry (snd ?RA)))"
    using st(3) mem example_selects(1) [of 8 "[NamespacedName ''ns'' ''s1'', NamespacedName ''ns'' ''s2'']"]
      example_accepted(1) by blast
  show ?thesis
    using example_calm [of 8 "[NamespacedName ''ns'' ''s1'', NamespacedName ''ns'' ''s2'']" ?kA]
      other_run_live [of 7 "[NamespacedName ''ns'' ''s2'']"] ro mem
      example_selects(1) [of 8 "[NamespacedName ''ns'' ''s1'', NamespacedName ''ns'' ''s2'']"]
      example_accepted(1) reg len
    by simp
qed

subsection \<open>Reconciling twice\<close>

lemma ready_condition_fields:
  "cond_Type (new_condition t g conditionTypeReady ConditionTrue reasonReady m) = conditionTypeReady"
  "cond_Type (new_condition t g conditionTypeAvailable ConditionTrue reasonConfigured m)
     = conditionTypeAvailable"
  "conditionTypeAvailable \<noteq> conditionTypeReady"
  by (simp_all add: conditionTypeReady_def conditionTypeAvailable_def)

text \<open>
  Claim C4, amended: two successive successful invocations on a live Gateway, with the
  same services in the cluster and the same selector semantics, publish the same
  conditions (the second invocation replaces and appends nothing) and the same address.
  The two service lists have the same length, one entry per registry key and no
  identity twice, and the same entries once the timestamp is disregarded: name,
  namespace, type, endpoint and status agree. Nothing is promised about the timestamp
  and about the order of the list.
\<close>

theorem reconcile_twice_same_up_to_timestamps:
  assumes calm1: "calm env1 req" and calm2: "calm env2 req"
    and live: "live_gateway w req g"
    and sel1: "env_selector env1 (spec_ServiceSelector (gw_Spec g)) = Inr selector"
    and sel2: "env_selector env2 (spec_ServiceSelector (gw_Spec g)) = Inr selector"
    and keyed: "keyed (MCPRegistry w)"
    and run1: "GatewayReconciler_Reconcile env1 req w = (res1, w1)"
    and run2: "GatewayReconciler_Reconcile env2 req w1 = (res2, w2)"
    and ro1: "range_order (services (MCPRegistry w1)) (env_range_services env1 req)"
    and ro2: "range_order (services (MCPRegistry w2)) (env_range_services env2 req)"
  shows "\<exists>s1 s2. api_gateways w1 req = Some s1 \<and> api_gateways w2 req = Some s2
           \<and> snd res1 = None \<and> snd res2 = None
           \<and> gw_Spec s2 = gw_Spec s1 \<and> api_services w2 = api_services w1
           \<and> st_Conditions (gw_Status s2) = st_Conditions (gw_Status s1)
           \<and> st_Address (gw_Status s2) = st_Address (gw_Status s1)
           \<and> length (st_MCPServices (gw_Status s2)) = length (st_MCPServices (gw_Status s1))
           \<and> set (map untimed (st_MCPServices (gw_Status s2)))
               = set (map untimed (st_MCPServices (gw_Status s1)))
           \<and> distinct (map info_key (st_MCPServices (gw_Status s1)))
           \<and> distinct (map info_key (st_MCPServices (gw_Status s2)))"
proof -
  let ?r1 = "registry_after env1 g w"
  let ?G1 = "final_gateway env1 g ?r1"
  let ?s1 = "g\<lparr> gw_Status := gw_Status ?G1 \<rparr>"
  let ?r2 = "registry_after env2 ?s1 w1"
  let ?G2 = "final_gateway env2 ?s1 ?r2"
  let ?s2 = "?s1\<lparr> gw_Status := gw_Status ?G2 \<rparr>"
  let ?ks1 = "env_range_services env1 req"
  let ?ks2 = "env_range_services env2 req"
  note S1 = Reconcile_success [OF calm1 live sel1]
  have w1: "w1 = snd (GatewayReconciler_Reconcile env1 req w)"
    and res1: "res1 = fst (GatewayReconciler_Reconcile env1 req w)"
    using run1 by simp_all
  have key: "gw_key g = req" using live by (simp add: live_gateway_def)
  have key1: "gw_key ?s1 = req" using key by (simp add: gw_key_def)
  have ag1: "api_gateways w1 req = Some ?s1" unfolding w1 S1(2) by simp
  have reg1: "MCPRegistry w1 = ?r1" unfolding w1 by (rule S1(3))
  have sv1: "api_services w1 = api_services w" unfolding w1 by (rule S1(4))
  have live1: "live_gateway w1 req ?s1"
    using live ag1 by (simp add: live_gateway_def gw_key_def ContainsFinalizer_def)
  have sel2': "env_selector env2 (spec_ServiceSelector (gw_Spec ?s1)) = Inr selector"
    using sel2 by simp
  note S2 = Reconcile_success [OF calm2 live1 sel2']
  have w2: "w2 = snd (GatewayReconciler_Reconcile env2 req w1)"
    and res2: "res2 = fst (GatewayReconciler_Reconcile env2 req w1)"
    using run2 by simp_all
  have ag2: "api_gateways w2 req = Some ?s2" unfolding w2 S2(2) by simp
  have reg2: "MCPRegistry w2 = ?r2" unfolding w2 by (rule S2(3))
  have sv2: "api_services w2 = api_services w1" unfolding w2 by (rule S2(4))
  have ok: "snd res1 = None" "snd res2 = None"
    unfolding res1 res2 S1(1) S2(1) by simp_all
  \<comment> \<open>the two loops visit the same services\<close>
  have same_sel: "selects env2 g = selects env1 g"
    using selects_eq [OF sel1] selects_eq [OF sel2] by simp
  let ?svcs = "rev (filter (selects env1 g) (api_services w))"
  have l1: "services ?r1 k =
     (case find (\<lambda>s. accepted s \<and> svc_key s = k) ?svcs of
        Some s \<Rightarrow> Some (entry_for env1 s) | None \<Rightarrow> services (MCPRegistry w) k)" for k
    by (rule registry_after_lookup)
  have l2: "services ?r2 k =
     (case find (\<lambda>s. accepted s \<and> svc_key s = k) ?svcs of
        Some s \<Rightarrow> Some (entry_for env2 s) | None \<Rightarrow> services ?r1 k)" for k
    using registry_after_lookup [of env2 ?s1 w1 k]
    by (simp add: same_sel sv1 reg1 cong: option.case_cong)
  have none_iff: "services ?r1 k = None \<longleftrightarrow> services ?r2 k = None" for k
    unfolding l2 [of k] unfolding l1 [of k]
    by (cases "find (\<lambda>s. accepted s \<and> svc_key s = k) ?svcs") simp_all
  have same_info: "untimed (service_info a) = untimed (service_info b)"
    if "services ?r1 k = Some a" "services ?r2 k = Some b" for k a b
  proof (cases "find (\<lambda>s. accepted s \<and> svc_key s = k) ?svcs")
    case None
    then have "services ?r2 k = services ?r1 k" using l2 [of k] by simp
    then show ?thesis using that by simp
  next
    case (Some s)
    then have "a = entry_for env1 s" "b = entry_for env2 s"
      using that l1 [of k] l2 [of k] by simp_all
    then show ?thesis using entry_for_info [of env1 s env2] by simp
  qed
  have dom_eq: "dom (services ?r2) = dom (services ?r1)"
    using none_iff unfolding dom_def by simp
  have ro1': "range_order (services ?r1) ?ks1" using ro1 reg1 by simp
  have ro2': "range_order (services ?r2) ?ks2" using ro2 reg2 by simp
  have len1: "length (range_values (services ?r1) ?ks1) = card (dom (services ?r1))"
    by (rule range_values_length [OF ro1'])
  have len2: "length (range_values (services ?r2) ?ks2) = card (dom (services ?r1))"
    using range_values_length [OF ro2'] dom_eq by simp
  \<comment> \<open>the published lists\<close>
  have list1: "st_MCPServices (gw_Status ?s1) = map service_info (range_values (services ?r1) ?ks1)"
    by (simp add: final_gateway_status(1) key)
  have list2: "st_MCPServices (gw_Status ?s2) = map service_info (range_values (services ?r2) ?ks2)"
    by (simp add: final_gateway_status(1) key1)
  have length_eq: "length (st_MCPServices (gw_Status ?s2)) = length (st_MCPServices (gw_Status ?s1))"
    unfolding list1 list2 using len1 len2 by simp
  have "(\<lambda>m. untimed (service_info m)) ` ran (services ?r1)
          = (\<lambda>m. untimed (service_info m)) ` ran (services ?r2)"
  proof (rule image_ran_cong)
    show "services ?r1 k = None \<longleftrightarrow> services ?r2 k = None" for k by (rule none_iff)
    show "untimed (service_info a) = untimed (service_info b)"
      if "services ?r1 k = Some a" "services ?r2 k = Some b" for k a b
      using that by (rule same_info)
  qed
  then have "(\<lambda>m. untimed (service_info m)) ` ran (services ?r2)
          = (\<lambda>m. untimed (service_info m)) ` ran (services ?r1)"
    by (rule sym)
  then have set_eq: "set (map untimed (st_MCPServices (gw_Status ?s2)))
               = set (map untimed (st_MCPServices (gw_Status ?s1)))"
    unfolding list1 list2 projected_set [OF ro1'] projected_set [OF ro2'] .
  have k1: "keyed ?r1" by (rule keyed_registry_after [OF keyed])
  have "keyed (MCPRegistry w1)" using k1 reg1 by simp
  then have k2: "keyed ?r2" by (rule keyed_registry_after)
  have d1: "distinct (map info_key (st_MCPServices (gw_Status ?s1)))"
    unfolding list1 projected_keys [OF k1 ro1'] using ro1' by (simp add: range_order_def)
  have d2: "distinct (map info_key (st_MCPServices (gw_Status ?s2)))"
    unfolding list2 projected_keys [OF k2 ro2'] using ro2' by (simp add: range_order_def)
  \<comment> \<open>address and conditions\<close>
  have addr: "st_Address (gw_Status ?s2) = st_Address (gw_Status ?s1)"
    by (simp add: final_gateway_status(2))
  have c1: "st_Conditions (gw_Status ?s1)
     = update_conditions
         (new_condition (env_now env1 (StampCondition conditionTypeAvailable)) g
            conditionTypeAvailable ConditionTrue reasonConfigured ''Gateway is available'')
         (update_conditions
            (new_condition (env_now env1 (StampCondition conditionTypeReady)) g
               conditionTypeReady ConditionTrue reasonReady
               (ready_message (card (dom (services ?r1)))))
            (st_Conditions (gw_Status g)))"
    by (simp add: final_gateway_status(3) key len1)
  have c2: "st_Conditions (gw_Status ?s2)
     = update_conditions
         (new_condition (env_now env2 (StampCondition conditionTypeAvailable)) ?s1
            conditionTypeAvailable ConditionTrue reasonConfigured ''Gateway is available'')
         (update_conditions
            (new_condition (env_now env2 (StampCondition conditionTypeReady)) ?s1
               conditionTypeReady ConditionTrue reasonReady
               (ready_message (card (dom (services ?r1)))))
            (st_Conditions (gw_Status ?s1)))"
    using final_gateway_status(3) [of env2 ?s1 ?r2] by (simp add: key1 len2)
  have conds: "st_Conditions (gw_Status ?s2) = st_Conditions (gw_Status ?s1)"
    unfolding c2 unfolding c1
    by (rule conditions_idempotent) (simp_all add: ready_condition_fields)
  have "api_gateways w1 req = Some ?s1 \<and> api_gateways w2 req = Some ?s2
           \<and> snd res1 = None \<and> snd res2 = None
           \<and> gw_Spec ?s2 = gw_Spec ?s1 \<and> api_services w2 = api_services w1
           \<and> st_Conditions (gw_Status ?s2) = st_Conditions (gw_Status ?s1)
           \<and> st_Address (gw_Status ?s2) = st_Address (gw_Status ?s1)
           \<and> length (st_MCPServices (gw_Status ?s2)) = length (st_MCPServices (gw_Status ?s1))
           \<and> set (map untimed (st_MCPServices (gw_Status ?s2)))
               = set (map untimed (st_MCPServices (gw_Status ?s1)))
           \<and> distinct (map info_key (st_MCPServices (gw_Status ?s1)))
           \<and> distinct (map info_key (st_MCPServices (gw_Status ?s2)))"
    using ag1 ag2 ok sv2 conds addr length_eq set_eq d1 d2 by simp
  then show ?thesis by blast
qed

text \<open>
  Claim C4, as stated: two successive invocations on an unchanged Gateway with
  unchanged services publish identical status, the service entries with equal fields.
  In the example cluster the first invocation runs at time 7 and the second at time 9;
  both succeed, the Gateway's spec and the services are the same, and the one entry of
  the list is stamped 7 after the first and 9 after the second: the loop registers the
  matching service again and \<^verbatim>\<open>RegisterService\<close> stamps every record it stores.
\<close>

theorem reconcile_twice_timestamps_differ:
  "snd (fst (GatewayReconciler_Reconcile (example_env 7 [NamespacedName ''ns'' ''s1''])
         (NamespacedName ''ns'' ''gw'') example_world)) = None
   \<and> snd (fst (GatewayReconciler_Reconcile (example_env 9 [NamespacedName ''ns'' ''s1''])
         (NamespacedName ''ns'' ''gw'')
         (snd (GatewayReconciler_Reconcile (example_env 7 [NamespacedName ''ns'' ''s1''])
                (NamespacedName ''ns'' ''gw'') example_world)))) = None
   \<and> api_services (snd (GatewayReconciler_Reconcile (example_env 7 [NamespacedName ''ns'' ''s1''])
         (NamespacedName ''ns'' ''gw'') example_world)) = api_services example_world
   \<and> gw_Spec (the (api_gateways
         (snd (GatewayReconciler_Reconcile (example_env 7 [NamespacedName ''ns'' ''s1''])
                (NamespacedName ''ns'' ''gw'') example_world))
         (NamespacedName ''ns'' ''gw''))) = gw_Spec example_gateway
   \<and> st_MCPServices (gw_Status (the (api_gateways
         (snd (GatewayReconciler_Reconcile (example_env 7 [NamespacedName ''ns'' ''s1''])
                (NamespacedName ''ns'' ''gw'') example_world))
         (NamespacedName ''ns'' ''gw''))))
       = [\<lparr> info_Name = ''s1'', info_Namespace = ''ns'', info_Type = ''agent'',
            info_Endpoint = ''/mcp/ns/s1'', info_Status = ''Available'', info_LastUpdated = 7 \<rparr>]
   \<and> st_MCPServices (gw_Status (the (api_gateways
         (snd (GatewayReconciler_Reconcile (example_env 9 [NamespacedName ''ns'' ''s1''])
                (NamespacedName ''ns'' ''gw'')
                (snd (GatewayReconciler_Reconcile (example_env 7 [NamespacedName ''ns'' ''s1''])
                       (NamespacedName ''ns'' ''gw'') example_world))))
         (NamespacedName ''ns'' ''gw''))))
       = [\<lparr> info_Name = ''s1'', info_Namespace = ''ns'', info_Type = ''agent'',
            info_Endpoint = ''/mcp/ns/s1'', info_Status = ''Available'', info_LastUpdated = 9 \<rparr>]
   \<and> gw_Status (the (api_gateways
         (snd (GatewayReconciler_Reconcile (example_env 9 [NamespacedName ''ns'' ''s1''])
                (NamespacedName ''ns'' ''gw'')
                (snd (GatewayReconciler_Reconcile (example_env 7 [NamespacedName ''ns'' ''s1''])
                       (NamespacedName ''ns'' ''gw'') example_world))))
         (NamespacedName ''ns'' ''gw'')))
       \<noteq> gw_Status (the (api_gateways
         (snd (GatewayReconciler_Reconcile (example_env 7 [NamespacedName ''ns'' ''s1''])
                (NamespacedName ''ns'' ''gw'') example_world))
         (NamespacedName ''ns'' ''gw'')))"
proof -
  let ?k1 = "NamespacedName ''ns'' ''s1''"
  let ?kA = "NamespacedName ''ns'' ''gw''"
  let ?e1 = "example_env 7 [?k1]"
  let ?e2 = "example_env 9 [?k1]"
  let ?R1 = "GatewayReconciler_Reconcile ?e1 ?kA example_world"
  let ?R2 = "GatewayReconciler_Reconcile ?e2 ?kA (snd ?R1)"
  note S1 = Reconcile_success [OF example_calm example_live(1) example_selector, of 7 "[?k1]"]
  note live1 = Reconcile_success_live [OF example_calm example_live(1) example_selector, of 7 "[?k1]"]
  note S2 = Reconcile_success [OF example_calm live1 example_selector, of 9 "[?k1]"]
  have 1: "snd (fst ?R1) = None" unfolding S1(1) by simp
  have 2: "snd (fst ?R2) = None" unfolding S2(1) by simp
  have 3: "api_services (snd ?R1) = api_services example_world" by (rule S1(4))
  have 4: "gw_Spec (the (api_gateways (snd ?R1) ?kA)) = gw_Spec example_gateway"
    unfolding S1(2) by simp
  have 5: "st_MCPServices (gw_Status (the (api_gateways (snd ?R1) ?kA)))
       = [\<lparr> info_Name = ''s1'', info_Namespace = ''ns'', info_Type = ''agent'',
            info_Endpoint = ''/mcp/ns/s1'', info_Status = ''Available'', info_LastUpdated = 7 \<rparr>]"
    by (rule first_run_list)
  have 6: "st_MCPServices (gw_Status (the (api_gateways (snd ?R2) ?kA)))
       = [\<lparr> info_Name = ''s1'', info_Namespace = ''ns'', info_Type = ''agent'',
            info_Endpoint = ''/mcp/ns/s1'', info_Status = ''Available'', info_LastUpdated = 9 \<rparr>]"
    by (rule second_run_list)
  have 7: "gw_Status (the (api_gateways (snd ?R2) ?kA)) \<noteq> gw_Status (the (api_gateways (snd ?R1) ?kA))"
  proof
    assume "gw_Status (the (api_gateways (snd ?R2) ?kA)) = gw_Status (the (api_gateways (snd ?R1) ?kA))"
    then have "st_MCPServices (gw_Status (the (api_gateways (snd ?R2) ?kA)))
             = st_MCPServices (gw_Status (the (api_gateways (snd ?R1) ?kA)))"
      by simp
    then show False unfolding 5 6 by simp
  qed
  show ?thesis using 1 2 3 4 5 6 7 by blast
qed

text \<open>The amended claim C4 on the same two invocations.\<close>

theorem reconcile_twice_same_up_to_timestamps_witness:
  "calm (example_env 7 [NamespacedName ''ns'' ''s1'']) (NamespacedName ''ns'' ''gw'')
   \<and> calm (example_env 9 [NamespacedName ''ns'' ''s1'']) (NamespacedName ''ns'' ''gw'')
   \<and> live_gateway example_world (NamespacedName ''ns'' ''gw'') example_gateway
   \<and> keyed (MCPRegistry example_world)
   \<and> (\<exists>s1 s2.
         api_gateways (snd (GatewayReconciler_Reconcile (example_env 7 [NamespacedName ''ns'' ''s1''])
            (NamespacedName ''ns'' ''gw'') example_world)) (NamespacedName ''ns'' ''gw'') = Some s1
       \<and> api_gateways (snd (GatewayReconciler_Reconcile (example_env 9 [NamespacedName ''ns'' ''s1''])
            (NamespacedName ''ns'' ''gw'')
            (snd (GatewayReconciler_Reconcile (example_env 7 [NamespacedName ''ns'' ''s1''])
                   (NamespacedName ''ns'' ''gw'') example_world))))
            (NamespacedName ''ns'' ''gw'') = Some s2
       \<and> st_Conditions (gw_Status s2) = st_Conditions (gw_Status s1)
       \<and> st_Address (gw_Status s2) = st_Address (gw_Status s1)
       \<and> length (st_MCPServices (gw_Status s2)) = length (st_MCPServices (gw_Status s1))
       \<and> set (map untimed (st_MCPServices (gw_Status s2)))
           = set (map untimed (st_MCPServices (gw_Status s1)))
       \<and> distinct (map info_key (st_MCPServices (gw_Status s1)))
       \<and> distinct (map info_key (st_MCPServices (gw_Status s2))))"
proof -
  let ?k1 = "NamespacedName ''ns'' ''s1''"
  let ?kA = "NamespacedName ''ns'' ''gw''"
  let ?e1 = "example_env 7 [?k1]"
  let ?e2 = "example_env 9 [?k1]"
  let ?R1 = "GatewayReconciler_Reconcile ?e1 ?kA example_world"
  let ?R2 = "GatewayReconciler_Reconcile ?e2 ?kA (snd ?R1)"
  have run1: "?R1 = (fst ?R1, snd ?R1)" and run2: "?R2 = (fst ?R2, snd ?R2)" by simp_all
  have ro1: "range_order (services (MCPRegistry (snd ?R1))) (env_range_services ?e1 ?kA)"
    unfolding first_run_services by (simp add: range_order_def)
  have ro2: "range_order (services (MCPRegistry (snd ?R2))) (env_range_services ?e2 ?kA)"
    unfolding second_run_services by (simp add: range_order_def)
  note t = reconcile_twice_same_up_to_timestamps
    [OF example_calm example_calm example_live(1) example_selector example_selector
        example_keyed run1 run2 ro1 ro2]
  have "\<exists>s1 s2. api_gateways (snd ?R1) ?kA = Some s1 \<and> api_gateways (snd ?R2) ?kA = Some s2
       \<and> st_Conditions (gw_Status s2) = st_Conditions (gw_Status s1)
       \<and> st_Address (gw_Status s2) = st_Address (gw_Status s1)
       \<and> length (st_MCPServices (gw_Status s2)) = length (st_MCPServices (gw_Status s1))
       \<and> set (map untimed (st_MCPServices (gw_Status s2)))
           = set (map untimed (st_MCPServices (gw_Status s1)))
       \<and> distinct (map info_key (st_MCPServices (gw_Status s1)))
       \<and> distinct (map info_key (st_MCPServices (gw_Status s2)))"
    using t by blast
  then show ?thesis
    using example_calm [of 7 "[?k1]" ?kA] example_calm [of 9 "[?k1]" ?kA] example_live(1)
      example_keyed
    by blast
qed

end
